theory Spec2Isabelle
  imports Complex_Main "HOL-Library.AList" "HOL-Library.Sublist"
begin

section \<open>The bulk order import of saleor/graphql/order/bulk_mutations/order_bulk_create.py\<close>

text \<open>
  A shallow embedding of the mutation \<open>OrderBulkCreate\<close>. Python objects that the code
  mutates in place are passed in and returned updated. A \<open>Decimal\<close> is a rational number
  (sums and comparisons of decimals are exact; the one inexact operation, quantizing, is
  written out). A \<open>datetime\<close> is a number of seconds on the time line, so that
  \<open>timedelta(minutes=5)\<close> is 300. A dictionary whose order matters is an association list.
  A key built by string formatting from two identifiers, \<open>f"{variant_id}_{warehouse_id}"\<close>,
  is the pair of the two identifiers. An object reference held by another object (the order
  line a fulfillment line belongs to) is the position of the referenced object in the list
  that owns it.
\<close>

subsection \<open>Constants and enumerations\<close>

type_synonym decimal = rat
type_synonym datetime = int

definition MINUTES_DIFF :: int where
  "MINUTES_DIFF = 5"

definition MAX_ORDERS :: nat where
  "MAX_ORDERS = 50"

definition MAX_NOTE_LENGTH :: nat where
  "MAX_NOTE_LENGTH = 200"

definition timedelta_minutes :: "int \<Rightarrow> int" where
  "timedelta_minutes m = 60 * m"

datatype OrderBulkCreateErrorCode =
    BULK_LIMIT | FUTURE_DATE | INSUFFICIENT_STOCK | NON_EXISTING_STOCK
  | NO_RELATED_ORDER_LINE | NEGATIVE_INDEX | NOT_FOUND | REQUIRED | INVALID
  | INVALID_QUANTITY | PRICE_ERROR | METADATA_KEY_REQUIRED | NOTE_LENGTH
  | TOO_MANY_IDENTIFIERS | UNIQUE | ORDER_LINE_FULFILLMENT_LINE_MISMATCH

text \<open>
  The error policy enumeration lives outside the file; the code names two of its values and
  leaves the orders alone for any other one.
\<close>

datatype ErrorPolicy = IGNORE_FAILED | REJECT_EVERYTHING | REJECT_FAILED_ROWS

datatype StockUpdatePolicy = FORCE | SKIP | UPDATE

datatype OrderStatus =
    DRAFT | UNCONFIRMED | UNFULFILLED | PARTIALLY_FULFILLED | PARTIALLY_RETURNED
  | RETURNED | FULFILLED | CANCELED | EXPIRED

datatype py_error = IndexError | DivisionByZero | TypeError

subsection \<open>Rendering of indexes in error paths\<close>

definition digit_char :: "nat \<Rightarrow> char" where
  "digit_char d = ''0123456789'' ! d"

fun str_nat :: "nat \<Rightarrow> string" where
  "str_nat n = (if n < 10 then [digit_char n] else str_nat (n div 10) @ [digit_char (n mod 10)])"

declare str_nat.simps [simp del]

definition str_int :: "int \<Rightarrow> string" where
  "str_int i = (if i < 0 then CHR ''-'' # str_nat (nat (- i)) else str_nat (nat i))"

subsection \<open>Model instances and the data classes of the module\<close>

text \<open>
  An instance of a database model as the lookup cache holds it: its primary key and the two
  attributes the module reads (\<open>name\<close>, and \<open>email\<close> for a user).
\<close>

record model_instance =
  pk :: string
  name :: string
  email :: string

type_synonym Warehouse = model_instance
type_synonym ProductVariant = model_instance
type_synonym User = model_instance
type_synonym Channel = model_instance
type_synonym Voucher = model_instance
type_synonym GiftCard = model_instance
type_synonym ShippingMethod = model_instance
type_synonym TaxClass = model_instance
type_synonym App = model_instance
type_synonym Address = string
type_synonym TransactionItem = string
type_synonym metadata_dict = "(string \<times> string) list"

record OrderBulkError =
  message :: string
  code :: "OrderBulkCreateErrorCode option"
  path :: "string option"

record Stock =
  stock_pk :: int
  product_variant_id :: string
  warehouse_id :: string
  quantity :: int
  quantity_allocated :: int

record OrderLine =
  variant :: ProductVariant
  product_name :: string
  line_variant_name :: string
  line_created_at :: datetime
  line_quantity :: int
  unit_price_net_amount :: decimal
  unit_price_gross_amount :: decimal
  total_price_net_amount :: decimal
  total_price_gross_amount :: decimal
  undiscounted_unit_price_net_amount :: decimal
  undiscounted_unit_price_gross_amount :: decimal
  undiscounted_total_price_net_amount :: decimal
  undiscounted_total_price_gross_amount :: decimal
  line_tax_rate :: "decimal option"
  line_tax_class :: "TaxClass option"
  line_tax_class_name :: "string option"
  line_metadata :: metadata_dict
  line_private_metadata :: metadata_dict
  line_tax_class_metadata :: metadata_dict
  line_tax_class_private_metadata :: metadata_dict
  quantity_fulfilled :: int

record FulfillmentLine =
  order_line :: nat
  fulfillment_line_quantity :: int

record Fulfillment =
  tracking_number :: string
  fulfillment_order :: int

record OrderBulkFulfillmentLine =
  fl_line :: FulfillmentLine
  fl_warehouse :: Warehouse

record OrderBulkFulfillment =
  fulfillment :: Fulfillment
  fulfillment_lines :: "OrderBulkFulfillmentLine list"

record OrderBulkOrderLine =
  ol_line :: OrderLine
  ol_warehouse :: Warehouse

datatype order_number = Sequence_number int | Input_number string

record Order =
  number :: order_number
  order_currency :: string
  order_created_at :: "datetime option"
  order_status :: "OrderStatus option"
  order_user :: "User option"
  order_user_email :: "string option"
  order_channel :: "Channel option"
  order_billing_address :: "Address option"
  order_shipping_address :: "Address option"
  order_voucher :: "Voucher option"
  shipping_tax_rate :: decimal
  shipping_price_gross_amount :: decimal
  shipping_price_net_amount :: decimal
  total_gross_amount :: decimal
  total_net_amount :: decimal
  undiscounted_total_gross_amount :: decimal
  undiscounted_total_net_amount :: decimal
  order_redirect_url :: "string option"
  order_metadata :: metadata_dict
  order_private_metadata :: metadata_dict
  shipping_tax_class_metadata :: metadata_dict
  shipping_tax_class_private_metadata :: metadata_dict

record OrderEvent =
  event_date :: "datetime option"
  event_message :: string
  event_user :: "User option"
  event_app :: "App option"

record Invoice =
  invoice_number :: "string option"
  external_url :: "string option"
  invoice_created_at :: "datetime option"
  invoice_metadata :: metadata_dict
  invoice_private_metadata :: metadata_dict

record OrderDiscount =
  discount_value_type :: string
  discount_value :: decimal
  discount_reason :: "string option"

record OrderBulkClass =
  order :: "Order option"
  errors :: "OrderBulkError list"
  lines :: "OrderBulkOrderLine list"
  order_notes :: "OrderEvent list"
  fulfillments :: "OrderBulkFulfillment list"
  transactions :: "TransactionItem list"
  invoices :: "Invoice list"
  discounts :: "OrderDiscount list"
  gift_cards :: "GiftCard list"
  user :: "User option"
  billing_address :: "Address option"
  channel :: "Channel option"
  shipping_address :: "Address option"
  voucher :: "Voucher option"
  is_critical_error :: bool

definition new_OrderBulkClass :: OrderBulkClass where
  "new_OrderBulkClass =
     \<lparr>order = None, errors = [], lines = [], order_notes = [], fulfillments = [],
      transactions = [], invoices = [], discounts = [], gift_cards = [], user = None,
      billing_address = None, channel = None, shipping_address = None, voucher = None,
      is_critical_error = False\<rparr>"

subsection \<open>Properties and methods of \<open>OrderBulkClass\<close>\<close>

text \<open>\<open>m.get(k, d)\<close> on a dictionary.\<close>

definition dict_get :: "('k \<Rightarrow> 'v option) \<Rightarrow> 'k \<Rightarrow> 'v \<Rightarrow> 'v" where
  "dict_get m k d = (case m k of Some v \<Rightarrow> v | None \<Rightarrow> d)"

definition make_error :: "string \<Rightarrow> string \<Rightarrow> OrderBulkCreateErrorCode \<Rightarrow> OrderBulkError" where
  "make_error m p c = \<lparr>message = m, code = Some c, path = Some p\<rparr>"

definition append_error :: "OrderBulkError \<Rightarrow> OrderBulkClass \<Rightarrow> OrderBulkClass" where
  "append_error e ord = ord\<lparr>errors := errors ord @ [e]\<rparr>"

text \<open>
  \<open>order_lines_duplicates\<close>: the keys are the (variant id, warehouse id) pairs of the lines;
  every line built by this module has a variant.
\<close>

definition order_lines_duplicates :: "OrderBulkClass \<Rightarrow> bool" where
  "order_lines_duplicates ord =
     (let keys = map (\<lambda>line. (pk (variant (ol_line line)), pk (ol_warehouse line))) (lines ord)
      in length keys \<noteq> length (remdups keys))"

definition all_order_lines :: "OrderBulkClass \<Rightarrow> OrderLine list" where
  "all_order_lines ord = map ol_line (lines ord)"

definition all_fulfillment_lines :: "OrderBulkClass \<Rightarrow> FulfillmentLine list" where
  "all_fulfillment_lines ord =
     concat (map (\<lambda>f. map fl_line (fulfillment_lines f)) (fulfillments ord))"

text \<open>
  \<open>orderline_fulfillmentlines_map\<close> groups the fulfillment lines of the order by the order
  line they reference, in the order of the fulfillments; a key is present when at least one
  fulfillment line references it. \<open>orderline_quantityfulfilled_map\<close> sums each group.
\<close>

definition orderline_fulfillmentlines_map ::
  "OrderBulkClass \<Rightarrow> nat \<Rightarrow> OrderBulkFulfillmentLine list option" where
  "orderline_fulfillmentlines_map ord k =
     (let ls = filter (\<lambda>line. order_line (fl_line line) = k)
                 (concat (map fulfillment_lines (fulfillments ord)))
      in if ls = [] then None else Some ls)"

definition orderline_quantityfulfilled_map :: "OrderBulkClass \<Rightarrow> nat \<Rightarrow> int option" where
  "orderline_quantityfulfilled_map ord k =
     map_option (\<lambda>ls. sum_list (map (\<lambda>line. fulfillment_line_quantity (fl_line line)) ls))
       (orderline_fulfillmentlines_map ord k)"

definition unique_variant_ids :: "OrderBulkClass \<Rightarrow> string list" where
  "unique_variant_ids ord = remdups (map (\<lambda>line. pk (variant (ol_line line))) (lines ord))"

definition unique_warehouse_ids :: "OrderBulkClass \<Rightarrow> string list" where
  "unique_warehouse_ids ord = remdups (map (\<lambda>line. pk (ol_warehouse line)) (lines ord))"

definition total_order_quantity :: "OrderBulkClass \<Rightarrow> int" where
  "total_order_quantity ord = sum_list (map (\<lambda>line. line_quantity (ol_line line)) (lines ord))"

definition total_fulfillment_quantity :: "OrderBulkClass \<Rightarrow> int" where
  "total_fulfillment_quantity ord =
     sum_list (map fulfillment_line_quantity (all_fulfillment_lines ord))"

definition set_quantity_fulfilled :: "OrderBulkClass \<Rightarrow> OrderBulkClass" where
  "set_quantity_fulfilled ord =
     ord\<lparr>lines :=
       map (\<lambda>(i, l). l\<lparr>ol_line := (ol_line l)\<lparr>quantity_fulfilled :=
              dict_get (orderline_quantityfulfilled_map ord) i 0\<rparr>\<rparr>)
           (enumerate 0 (lines ord))\<rparr>"

definition set_fulfillment_order :: "OrderBulkClass \<Rightarrow> OrderBulkClass" where
  "set_fulfillment_order ord =
     ord\<lparr>fulfillments :=
       map (\<lambda>(i, f). f\<lparr>fulfillment := (fulfillment f)\<lparr>fulfillment_order := 1 + int i\<rparr>\<rparr>)
           (enumerate 0 (fulfillments ord))\<rparr>"

subsection \<open>The stock allocator: \<open>handle_stocks\<close>\<close>

type_synonym stocks_map = "((string \<times> string) \<times> Stock) list"

definition stock_key :: "Stock \<Rightarrow> string \<times> string" where
  "stock_key stock = (product_variant_id stock, warehouse_id stock)"

text \<open>
  The body of \<open>for line in order.lines\<close>, from the line at position \<open>line_index\<close> on. The
  stock found in the copy is an object of the copy: its two updates are written back under
  its key. A \<open>break\<close> returns at once.
\<close>

definition more_fulfillments_error :: "string \<Rightarrow> string \<Rightarrow> nat \<Rightarrow> OrderBulkError" where
  "more_fulfillments_error variant_id warehouse line_index =
     make_error
       (''There is more fulfillments, than ordered quantity for order line with variant: ''
          @ variant_id @ '' and warehouse: '' @ warehouse)
       (''lines.['' @ str_nat line_index @ '']'') INVALID_QUANTITY"

definition non_existing_stock_error :: "string \<Rightarrow> string \<Rightarrow> nat \<Rightarrow> OrderBulkError" where
  "non_existing_stock_error variant_id warehouse line_index =
     make_error
       (''There is no stock for given product variant: '' @ variant_id
          @ '' and warehouse: '' @ warehouse @ ''.'')
       (''lines.['' @ str_nat line_index @ '']'') NON_EXISTING_STOCK"

definition insufficient_stock_error :: "string \<Rightarrow> string \<Rightarrow> nat \<Rightarrow> OrderBulkError" where
  "insufficient_stock_error variant_id warehouse line_index =
     make_error
       (''Insufficient stock for product variant: '' @ variant_id
          @ '' and warehouse: '' @ warehouse @ ''.'')
       (''lines.['' @ str_nat line_index @ '']'') INSUFFICIENT_STOCK"

fun handle_stocks_lines ::
  "StockUpdatePolicy \<Rightarrow> OrderBulkOrderLine list \<Rightarrow> nat \<Rightarrow> OrderBulkClass \<Rightarrow> stocks_map
     \<Rightarrow> OrderBulkClass \<times> stocks_map" where
  "handle_stocks_lines stock_update_policy [] line_index ord stocks_map_copy =
     (ord, stocks_map_copy)"
| "handle_stocks_lines stock_update_policy (line # rest) line_index ord stocks_map_copy =
     (let order_line = ol_line line;
          variant_id = pk (variant order_line);
          warehouse = pk (ol_warehouse line);
          quantity_to_fulfill = line_quantity order_line;
          quantity_fulfilled = dict_get (orderline_quantityfulfilled_map ord) line_index 0;
          quantity_to_allocate = quantity_to_fulfill - quantity_fulfilled
      in if quantity_to_allocate < 0 then
           ((append_error (more_fulfillments_error variant_id warehouse line_index) ord)
              \<lparr>is_critical_error := True\<rparr>, stocks_map_copy)
         else
           (case map_of stocks_map_copy (variant_id, warehouse) of
              None \<Rightarrow>
                ((append_error (non_existing_stock_error variant_id warehouse line_index) ord)
                   \<lparr>is_critical_error := True\<rparr>, stocks_map_copy)
            | Some stock \<Rightarrow>
                (let available_quantity = quantity stock - quantity_allocated stock;
                     ord1 =
                       (if quantity_to_allocate > available_quantity
                           \<and> stock_update_policy \<noteq> FORCE
                        then (append_error
                                (insufficient_stock_error variant_id warehouse line_index) ord)
                               \<lparr>is_critical_error := True\<rparr>
                        else ord);
                     stock1 = stock\<lparr>quantity_allocated :=
                                quantity_allocated stock + quantity_to_allocate\<rparr>;
                     fulfillment_lines =
                       dict_get (orderline_fulfillmentlines_map ord) line_index [];
                     stock2 =
                       fold (\<lambda>fulfillment_line s.
                               s\<lparr>quantity := quantity s
                                   - fulfillment_line_quantity (fl_line fulfillment_line)\<rparr>)
                            fulfillment_lines stock1
                 in handle_stocks_lines stock_update_policy rest (line_index + 1) ord1
                      (AList.update (variant_id, warehouse) stock2 stocks_map_copy))))"

text \<open>
  One round of \<open>for order in orders\<close>: the order after its lines were walked, its private
  copy of the snapshot, and the shared snapshot the next order starts from.
\<close>

definition handle_stocks_order ::
  "StockUpdatePolicy \<Rightarrow> OrderBulkClass \<Rightarrow> stocks_map
     \<Rightarrow> OrderBulkClass \<times> stocks_map \<times> stocks_map" where
  "handle_stocks_order stock_update_policy ord stocks_map =
     (let stocks_map_copy = stocks_map;
          (ord', stocks_map_copy') =
             handle_stocks_lines stock_update_policy (lines ord) 0 ord stocks_map_copy
      in (ord', stocks_map_copy',
          if \<not> is_critical_error ord' then stocks_map_copy' else stocks_map))"

fun handle_stocks_orders ::
  "StockUpdatePolicy \<Rightarrow> OrderBulkClass list \<Rightarrow> stocks_map
     \<Rightarrow> OrderBulkClass list \<times> stocks_map" where
  "handle_stocks_orders stock_update_policy [] stocks_map = ([], stocks_map)"
| "handle_stocks_orders stock_update_policy (ord # rest) stocks_map =
     (let (ord', stocks_map_copy', stocks_map') =
             handle_stocks_order stock_update_policy ord stocks_map;
          (rest', final) = handle_stocks_orders stock_update_policy rest stocks_map'
      in (ord' # rest', final))"

text \<open>
  The stock rows are read once, for the variants and warehouses of the orders that still
  have their record; \<open>table\<close> is the stock table of the database.
\<close>

definition fetch_stocks :: "Stock list \<Rightarrow> OrderBulkClass list \<Rightarrow> stocks_map" where
  "fetch_stocks table orders =
     (let variant_ids = concat (map unique_variant_ids (filter (\<lambda>ord. order ord \<noteq> None) orders));
          warehouse_ids =
            concat (map unique_warehouse_ids (filter (\<lambda>ord. order ord \<noteq> None) orders));
          stocks = filter (\<lambda>stock. warehouse_id stock \<in> set warehouse_ids
                             \<and> product_variant_id stock \<in> set variant_ids) table
      in fold (\<lambda>stock m. AList.update (stock_key stock) stock m) stocks [])"

definition handle_stocks ::
  "Stock list \<Rightarrow> OrderBulkClass list \<Rightarrow> StockUpdatePolicy \<Rightarrow> OrderBulkClass list \<times> Stock list" where
  "handle_stocks table orders stock_update_policy =
     (let (orders', stocks_map) =
            handle_stocks_orders stock_update_policy orders (fetch_stocks table orders)
      in (orders', map snd stocks_map))"

subsection \<open>Order numbers, the error policy and the commit\<close>

text \<open>
  \<open>validate_order_numbers\<close>, its loop over the orders with the list \<open>numbers\<close> of the numbers
  seen so far. What follows the loop in the source only moves the database sequence of order
  numbers past the largest numeric number seen; it touches no order.
\<close>

definition str_number :: "order_number \<Rightarrow> string" where
  "str_number n = (case n of Input_number s \<Rightarrow> s | Sequence_number i \<Rightarrow> str_int i)"

definition multiple_orders_error :: "order_number \<Rightarrow> OrderBulkError" where
  "multiple_orders_error n =
     make_error (''Input contains multiple orders with number: '' @ str_number n @ ''.'')
       ''number'' UNIQUE"

fun validate_order_numbers_loop ::
  "order_number list \<Rightarrow> OrderBulkClass list \<Rightarrow> OrderBulkClass list" where
  "validate_order_numbers_loop numbers [] = []"
| "validate_order_numbers_loop numbers (ord # rest) =
     (case order ord of
        None \<Rightarrow> ord # validate_order_numbers_loop numbers rest
      | Some r \<Rightarrow>
          if number r \<in> set numbers then
            (append_error (multiple_orders_error (number r)) ord)\<lparr>order := None\<rparr>
              # validate_order_numbers_loop numbers rest
          else ord # validate_order_numbers_loop (numbers @ [number r]) rest)"

definition validate_order_numbers :: "OrderBulkClass list \<Rightarrow> OrderBulkClass list" where
  "validate_order_numbers orders = validate_order_numbers_loop [] orders"

definition handle_error_policy :: "OrderBulkClass list \<Rightarrow> ErrorPolicy \<Rightarrow> OrderBulkClass list" where
  "handle_error_policy orders error_policy =
     (let errs = concat (map errors orders)
      in if errs \<noteq> [] then
           map (\<lambda>ord.
                  if error_policy = REJECT_EVERYTHING then ord\<lparr>order := None\<rparr>
                  else if error_policy = REJECT_FAILED_ROWS then
                    (if errors ord \<noteq> [] then ord\<lparr>order := None\<rparr> else ord)
                  else ord) orders
         else orders)"

text \<open>
  The tables the commit writes. Keys that the database assigns on insert are not part of
  the rows, so \<open>set_fulfillment_id\<close>, which copies them into the fulfillment lines, has no
  counterpart here.
\<close>

record database =
  address_table :: "Address list"
  order_table :: "Order list"
  orderline_table :: "OrderLine list"
  orderevent_table :: "OrderEvent list"
  fulfillment_table :: "Fulfillment list"
  fulfillmentline_table :: "FulfillmentLine list"
  stock_table :: "Stock list"
  transactionitem_table :: "TransactionItem list"
  invoice_table :: "Invoice list"
  orderdiscount_table :: "OrderDiscount list"
  order_gift_cards_table :: "(order_number \<times> GiftCard) list"

text \<open>
  \<open>Stock.objects.bulk_update(stocks, ["quantity"])\<close>: every row whose key is the key of an
  object of \<open>stocks\<close> takes that object's \<open>quantity\<close>; no other column is written.
\<close>

definition bulk_update_quantity :: "Stock list \<Rightarrow> Stock list \<Rightarrow> Stock list" where
  "bulk_update_quantity table stocks =
     map (\<lambda>row. case find (\<lambda>stock. stock_pk stock = stock_pk row) stocks of
                  None \<Rightarrow> row
                | Some stock \<Rightarrow> row\<lparr>quantity := quantity stock\<rparr>) table"

definition option_list :: "'a option \<Rightarrow> 'a list" where
  "option_list x = (case x of None \<Rightarrow> [] | Some v \<Rightarrow> [v])"

text \<open>The body of the first loop of \<open>save_data\<close>.\<close>

definition prepare_order :: "OrderBulkClass \<Rightarrow> OrderBulkClass" where
  "prepare_order ord =
     (let ord1 = set_fulfillment_order (set_quantity_fulfilled ord)
      in if is_critical_error ord1 then ord1\<lparr>order := None\<rparr> else ord1)"

definition save_data ::
  "database \<Rightarrow> OrderBulkClass list \<Rightarrow> Stock list \<Rightarrow> database \<times> OrderBulkClass list" where
  "save_data db orders0 stocks =
     (let orders = map prepare_order orders0;
          kept = filter (\<lambda>ord. order ord \<noteq> None) orders;
          addresses =
            concat (map (\<lambda>ord. case order ord of
                                  None \<Rightarrow> []
                                | Some r \<Rightarrow> option_list (order_billing_address r)
                                            @ option_list (order_shipping_address r)) orders)
      in (db\<lparr>address_table := address_table db @ addresses,
             order_table := order_table db @ concat (map (\<lambda>ord. option_list (order ord)) orders),
             orderline_table := orderline_table db @ concat (map all_order_lines kept),
             orderevent_table := orderevent_table db @ concat (map order_notes kept),
             fulfillment_table :=
               fulfillment_table db @ concat (map (\<lambda>ord. map fulfillment (fulfillments ord)) kept),
             fulfillmentline_table :=
               fulfillmentline_table db @ concat (map all_fulfillment_lines kept),
             stock_table := bulk_update_quantity (stock_table db) stocks,
             transactionitem_table := transactionitem_table db @ concat (map transactions kept),
             invoice_table := invoice_table db @ concat (map invoices kept),
             orderdiscount_table := orderdiscount_table db @ concat (map discounts kept),
             order_gift_cards_table :=
               order_gift_cards_table db
                 @ concat (map (\<lambda>ord. case order ord of
                                         None \<Rightarrow> []
                                       | Some r \<Rightarrow> map (\<lambda>g. (number r, g)) (gift_cards ord)) orders)\<rparr>,
          orders))"

record OrderBulkCreateResult =
  result_order :: "Order option"
  result_errors :: "OrderBulkError list"

text \<open>
  The field \<open>results\<close> of the payload is declared a list of results. The code fills it
  with a list on one path and with a single result object on the other.
\<close>

datatype results_value =
    Result_list "OrderBulkCreateResult list"
  | Result_object OrderBulkCreateResult

record OrderBulkCreate =
  count :: nat
  results :: results_value

text \<open>
  \<open>perform_mutation\<close> from the call of \<open>validate_order_numbers\<close> to the call of
  \<open>save_data\<close>, for the orders that \<open>create_single_order\<close> has built: the database after
  the commit and the orders as they are at the end.
\<close>

definition process_orders ::
  "database \<Rightarrow> ErrorPolicy \<Rightarrow> StockUpdatePolicy \<Rightarrow> OrderBulkClass list
     \<Rightarrow> database \<times> OrderBulkClass list" where
  "process_orders db error_policy stock_update_policy orders0 =
     (let orders1 = validate_order_numbers orders0;
          orders2 = handle_error_policy orders1 error_policy;
          (orders3, stocks) =
            (if stock_update_policy \<noteq> SKIP
             then handle_stocks (stock_table db) orders2 stock_update_policy
             else (orders2, []))
      in save_data db orders3 stocks)"

text \<open>
  The rest of \<open>perform_mutation\<close>: the orders the \<open>order_bulk_created\<close> event is sent for,
  and the payload with one result for each order and the count of the orders that have
  their record.
\<close>

definition commit_orders ::
  "database \<Rightarrow> ErrorPolicy \<Rightarrow> StockUpdatePolicy \<Rightarrow> OrderBulkClass list
     \<Rightarrow> database \<times> Order list \<times> OrderBulkCreate" where
  "commit_orders db error_policy stock_update_policy orders0 =
     (let (db', orders) = process_orders db error_policy stock_update_policy orders0
      in (db',
          concat (map (\<lambda>ord. option_list (order ord)) orders),
          \<lparr>count = length (filter (\<lambda>ord. order ord \<noteq> None) orders),
           results =
             Result_list
               (map (\<lambda>ord. \<lparr>result_order = order ord, result_errors = errors ord\<rparr>) orders)\<rparr>))"

subsection \<open>The input of the mutation\<close>

text \<open>
  An input object is a record; a field the caller may leave out is an option, and a list
  the caller may leave out is the empty list (the code treats both alike). The functions
  \<open>\<dots>_get\<close> read an identifier field by its name, as \<open>input.get(key)\<close> does.
\<close>

type_synonym MetadataInput = "string \<times> string"
type_synonym AddressInput = string
type_synonym TransactionCreateInput = string

record TaxedMoneyInput =
  gross :: decimal
  net :: decimal

record OrderBulkCreateUserInput =
  ui_id :: "string option"
  ui_email :: "string option"
  ui_external_reference :: "string option"

record OrderBulkCreateInvoiceInput =
  ii_created_at :: datetime
  ii_number :: "string option"
  ii_url :: "string option"
  ii_metadata :: "MetadataInput list"
  ii_private_metadata :: "MetadataInput list"

record OrderBulkCreateDeliveryMethodInput =
  di_warehouse_id :: "string option"
  di_warehouse_name :: "string option"
  di_shipping_method_id :: "string option"
  di_shipping_method_name :: "string option"
  di_shipping_price :: "TaxedMoneyInput option"
  di_shipping_tax_rate :: "decimal option"
  di_shipping_tax_class_id :: "string option"
  di_shipping_tax_class_name :: "string option"
  di_shipping_tax_class_metadata :: "MetadataInput list"
  di_shipping_tax_class_private_metadata :: "MetadataInput list"

record OrderBulkCreateNoteInput =
  ni_message :: string
  ni_date :: "datetime option"
  ni_user_id :: "string option"
  ni_user_email :: "string option"
  ni_user_external_reference :: "string option"
  ni_app_id :: "string option"

record OrderBulkCreateFulfillmentLineInput =
  fli_variant_id :: "string option"
  fli_variant_sku :: "string option"
  fli_variant_external_reference :: "string option"
  fli_quantity :: int
  fli_warehouse :: "string option"
  fli_order_line_index :: int

record OrderBulkCreateFulfillmentInput =
  fi_tracking_code :: "string option"
  fi_lines :: "OrderBulkCreateFulfillmentLineInput list"

record OrderBulkCreateOrderLineInput =
  li_variant_id :: "string option"
  li_variant_sku :: "string option"
  li_variant_external_reference :: "string option"
  li_variant_name :: "string option"
  li_product_name :: "string option"
  li_created_at :: datetime
  li_quantity :: int
  li_total_price :: TaxedMoneyInput
  li_undiscounted_total_price :: TaxedMoneyInput
  li_warehouse :: "string option"
  li_metadata :: "MetadataInput list"
  li_private_metadata :: "MetadataInput list"
  li_tax_rate :: "decimal option"
  li_tax_class_id :: "string option"
  li_tax_class_name :: "string option"
  li_tax_class_metadata :: "MetadataInput list"
  li_tax_class_private_metadata :: "MetadataInput list"

record OrderDiscountCommonInput =
  dsc_value_type :: string
  dsc_value :: decimal
  dsc_reason :: "string option"

record OrderBulkCreateInput =
  oi_number :: "string option"
  oi_channel :: "string option"
  oi_created_at :: datetime
  oi_status :: OrderStatus
  oi_user :: OrderBulkCreateUserInput
  oi_billing_address :: AddressInput
  oi_shipping_address :: "AddressInput option"
  oi_currency :: string
  oi_metadata :: "MetadataInput list"
  oi_private_metadata :: "MetadataInput list"
  oi_notes :: "OrderBulkCreateNoteInput list"
  oi_weight :: "decimal option"
  oi_redirect_url :: "string option"
  oi_lines :: "OrderBulkCreateOrderLineInput list"
  oi_delivery_method :: OrderBulkCreateDeliveryMethodInput
  oi_gift_cards :: "string list"
  oi_voucher :: "string option"
  oi_discounts :: "OrderDiscountCommonInput list"
  oi_fulfillments :: "OrderBulkCreateFulfillmentInput list"
  oi_transactions :: "TransactionCreateInput list"
  oi_invoices :: "OrderBulkCreateInvoiceInput list"

text \<open>Truth value of an optional string: given and not empty.\<close>

definition truthy :: "string option \<Rightarrow> bool" where
  "truthy x = (case x of None \<Rightarrow> False | Some v \<Rightarrow> v \<noteq> [])"

definition user_input_get :: "OrderBulkCreateUserInput \<Rightarrow> string \<Rightarrow> string option" where
  "user_input_get i k =
     (if k = ''id'' then ui_id i else if k = ''email'' then ui_email i
      else if k = ''external_reference'' then ui_external_reference i else None)"

definition order_input_get :: "OrderBulkCreateInput \<Rightarrow> string \<Rightarrow> string option" where
  "order_input_get i k =
     (if k = ''channel'' then oi_channel i else if k = ''voucher'' then oi_voucher i
      else if k = ''number'' then oi_number i else None)"

definition delivery_input_get :: "OrderBulkCreateDeliveryMethodInput \<Rightarrow> string \<Rightarrow> string option" where
  "delivery_input_get i k =
     (if k = ''warehouse_id'' then di_warehouse_id i
      else if k = ''shipping_method_id'' then di_shipping_method_id i
      else if k = ''shipping_tax_class_id'' then di_shipping_tax_class_id i else None)"

definition note_input_get :: "OrderBulkCreateNoteInput \<Rightarrow> string \<Rightarrow> string option" where
  "note_input_get i k =
     (if k = ''user_id'' then ni_user_id i else if k = ''user_email'' then ni_user_email i
      else if k = ''user_external_reference'' then ni_user_external_reference i
      else if k = ''app_id'' then ni_app_id i else None)"

definition line_input_get :: "OrderBulkCreateOrderLineInput \<Rightarrow> string \<Rightarrow> string option" where
  "line_input_get i k =
     (if k = ''variant_id'' then li_variant_id i
      else if k = ''variant_external_reference'' then li_variant_external_reference i
      else if k = ''variant_sku'' then li_variant_sku i
      else if k = ''warehouse'' then li_warehouse i
      else if k = ''tax_class_id'' then li_tax_class_id i else None)"

definition fulfillment_line_input_get ::
  "OrderBulkCreateFulfillmentLineInput \<Rightarrow> string \<Rightarrow> string option" where
  "fulfillment_line_input_get i k =
     (if k = ''variant_id'' then fli_variant_id i
      else if k = ''variant_external_reference'' then fli_variant_external_reference i
      else if k = ''variant_sku'' then fli_variant_sku i
      else if k = ''warehouse'' then fli_warehouse i else None)"

subsection \<open>External collaborators and the lookup cache\<close>

text \<open>
  Functions of other modules that the mutation calls are parameters. A validator that
  raises \<open>ValidationError\<close> returns its message; \<open>validate_address\<close> returns no address
  when it raises; \<open>prepare_transaction_item_for_order\<close> returns the first message and code
  of every field of its error dictionary when it raises. \<open>timezone_now\<close> is the reading of
  the clock. \<open>result_with_keyword_error\<close> stands for the call
  \<open>OrderBulkCreateResult(order=None, error=error)\<close>: the result type declares the fields
  \<open>order\<close> and \<open>errors\<close> and no field \<open>error\<close>, and what the constructor of its base type
  makes of a keyword that is no field, an exception or some result object, is decided
  outside the file.
\<close>

record collaborators =
  timezone_now :: datetime
  validate_storefront_url :: "string \<Rightarrow> string option"
  validate_address :: "AddressInput \<Rightarrow> Address option"
  url_validator :: "string \<Rightarrow> bool"
  validate_order_discount_input :: "decimal \<Rightarrow> OrderDiscountCommonInput \<Rightarrow> string option"
  prepare_transaction_item_for_order ::
    "TransactionCreateInput \<Rightarrow> (string \<times> OrderBulkCreateErrorCode) list + TransactionItem"
  shipping_method_channel_listing_price :: "string \<Rightarrow> string \<Rightarrow> decimal option"
  metadata_contains_empty_key :: "MetadataInput list \<Rightarrow> bool"
  get_currency_precision :: "string \<Rightarrow> nat"
  result_with_keyword_error :: "OrderBulkError \<Rightarrow> py_error + OrderBulkCreateResult"

text \<open>
  The dictionary \<open>object_storage\<close> that \<open>get_all_instances\<close> builds by database queries:
  model instances under \<open>"{model}.{field}.{value}"\<close>, shipping prices under
  \<open>"shipping_price.{id}"\<close>. It is a parameter of the mutation.
\<close>

datatype storage_value = Instance model_instance | Price decimal

type_synonym object_storage = "string \<Rightarrow> storage_value option"

definition storage_instance :: "object_storage \<Rightarrow> string \<Rightarrow> model_instance option" where
  "storage_instance object_storage k =
     (case object_storage k of Some (Instance i) \<Rightarrow> Some i | _ \<Rightarrow> None)"

record ValidationError =
  ve_message :: string
  ve_code :: OrderBulkCreateErrorCode
  ve_path :: "string option"

definition dotted_path :: "string \<Rightarrow> string \<Rightarrow> string" where
  "dotted_path p k = (if p = [] then k else p @ ''.'' @ k)"

text \<open>
  Modelled from the spec: \<open>get_instance\<close> of bulk_mutations/utils.py, which is not among
  the sources. The spec (4.1): given an input fragment and a key-map (input field to entity
  field), look up a cached entity; return the entity or report \<open>NOT_FOUND\<close> or
  \<open>TOO_MANY_IDENTIFIERS\<close> under a dotted path such as \<open>lines.[2].warehouse\<close>; the identifier
  fields are tried in priority order, and more than one resolving to different entities is
  an error. The caller, \<open>get_instance_with_errors\<close>, receives the report as a
  \<open>ValidationError\<close>.
\<close>

definition get_instance ::
  "(string \<Rightarrow> string option) \<Rightarrow> string \<Rightarrow> (string \<times> string) list \<Rightarrow> object_storage \<Rightarrow> string
     \<Rightarrow> ValidationError + model_instance" where
  "get_instance input model key_map object_storage p =
     (let provided =
            concat (map (\<lambda>(data_key, db_key).
                           map (\<lambda>v. (data_key, db_key, v)) (option_list (input data_key))) key_map);
          resolved =
            concat (map (\<lambda>(data_key, db_key, v).
                           option_list (storage_instance object_storage
                                          (model @ ''.'' @ db_key @ ''.'' @ v))) provided)
      in case resolved of
           [] \<Rightarrow>
             Inl \<lparr>ve_message = model @ '' instance not found.'', ve_code = NOT_FOUND,
                  ve_path = Some (case provided of [] \<Rightarrow> p
                                  | (data_key, _) # _ \<Rightarrow> dotted_path p data_key)\<rparr>
         | i # rest \<Rightarrow>
             if \<exists>j \<in> set rest. j \<noteq> i
             then Inl \<lparr>ve_message = ''Identifiers resolve to different '' @ model @ '' instances.'',
                       ve_code = TOO_MANY_IDENTIFIERS, ve_path = Some p\<rparr>
             else Inr i)"

definition get_instance_with_errors ::
  "(string \<Rightarrow> string option) \<Rightarrow> string \<Rightarrow> (string \<times> string) list \<Rightarrow> OrderBulkError list
     \<Rightarrow> object_storage \<Rightarrow> string \<Rightarrow> OrderBulkError list \<times> model_instance option" where
  "get_instance_with_errors input model key_map errs object_storage p =
     (case get_instance input model key_map object_storage p of
        Inl err \<Rightarrow>
          (errs @ [\<lparr>message = ve_message err, code = Some (ve_code err), path = ve_path err\<rparr>],
           None)
      | Inr instance \<Rightarrow> (errs, Some instance))"

subsection \<open>Validation of one order input\<close>

definition is_datetime_valid :: "collaborators \<Rightarrow> datetime \<Rightarrow> bool" where
  "is_datetime_valid ext date = (date < timezone_now ext + timedelta_minutes MINUTES_DIFF)"

definition order_exists_error :: "string \<Rightarrow> OrderBulkError" where
  "order_exists_error order_number =
     make_error (''Order with number: '' @ order_number @ '' already exists.'') ''number'' UNIQUE"

definition future_date_error :: "string \<Rightarrow> string \<Rightarrow> OrderBulkError" where
  "future_date_error what p = make_error (what @ '' input contains future date.'') p FUTURE_DATE"

definition validate_order_input ::
  "collaborators \<Rightarrow> OrderBulkCreateInput \<Rightarrow> OrderBulkClass \<Rightarrow> object_storage \<Rightarrow> OrderBulkClass" where
  "validate_order_input ext order_input ord object_storage =
     (let date = oi_created_at order_input;
          ord1 = (if \<not> is_datetime_valid ext date
                  then append_error (future_date_error ''Order'' ''created_at'') ord
                  else ord);
          ord2 = (case oi_redirect_url order_input of
                    None \<Rightarrow> ord1
                  | Some redirect_url \<Rightarrow>
                      if redirect_url = [] then ord1
                      else (case validate_storefront_url ext redirect_url of
                              None \<Rightarrow> ord1
                            | Some err_message \<Rightarrow>
                                append_error
                                  (make_error (''Invalid redirect url: '' @ err_message @ ''.'')
                                     ''redirect_url'' INVALID) ord1));
          ord3 = (case oi_weight order_input of
                    None \<Rightarrow> ord2
                  | Some weight \<Rightarrow>
                      if weight < 0
                      then append_error
                             (make_error ''Order can't have negative weight.'' ''weight'' INVALID) ord2
                      else ord2)
      in case oi_number order_input of
           None \<Rightarrow> ord3
         | Some order_number \<Rightarrow>
             if order_number = [] then ord3
             else if storage_instance object_storage (''Order.number.'' @ order_number) \<noteq> None
             then (append_error (order_exists_error order_number) ord3)
                    \<lparr>is_critical_error := True\<rparr>
             else ord3)"

definition validate_order_status :: "OrderStatus \<Rightarrow> OrderBulkClass \<Rightarrow> OrderBulkClass" where
  "validate_order_status status ord =
     (let total_order_quantity = total_order_quantity ord;
          total_fulfillment_quantity = total_fulfillment_quantity ord;
          is_invalid =
            ((total_fulfillment_quantity = 0 \<and> status \<in> {PARTIALLY_FULFILLED, FULFILLED})
             \<or> (total_fulfillment_quantity > 0
                 \<and> total_order_quantity - total_fulfillment_quantity > 0
                 \<and> status \<in> {FULFILLED, UNFULFILLED})
             \<or> (total_order_quantity = total_fulfillment_quantity
                 \<and> status \<in> {PARTIALLY_FULFILLED, UNFULFILLED}))
      in if is_invalid
         then append_error (make_error ''Invalid order status.'' ''status'' INVALID) ord
         else ord)"

definition is_space :: "char \<Rightarrow> bool" where
  "is_space c = (c \<in> set [CHR '' '', CHR 0x09, CHR 0x0A, CHR 0x0B, CHR 0x0C, CHR 0x0D])"

definition py_strip :: "string \<Rightarrow> string" where
  "py_strip s = rev (dropWhile is_space (rev (dropWhile is_space s)))"

definition process_metadata ::
  "collaborators \<Rightarrow> MetadataInput list \<Rightarrow> OrderBulkError list \<Rightarrow> string \<Rightarrow> metadata_dict
     \<Rightarrow> OrderBulkError list \<times> metadata_dict" where
  "process_metadata ext metadata errs p field =
     (let (errs', metadata') =
            (if metadata_contains_empty_key ext metadata
             then (errs @ [make_error ''Metadata key cannot be empty.'' p METADATA_KEY_REQUIRED],
                   filter (\<lambda>data. py_strip (fst data) \<noteq> []) metadata)
             else (errs, metadata))
      in (errs', fold (\<lambda>data f. AList.update (fst data) (snd data) f) metadata' field))"

subsection \<open>Instances related to an order\<close>

fun resolve_gift_cards ::
  "object_storage \<Rightarrow> string list \<Rightarrow> nat \<Rightarrow> OrderBulkClass \<Rightarrow> OrderBulkClass" where
  "resolve_gift_cards object_storage [] code_index ord = ord"
| "resolve_gift_cards object_storage (gift_code # rest) code_index ord =
     (case storage_instance object_storage (''GiftCard.code.'' @ gift_code) of
        Some gift_card \<Rightarrow>
          resolve_gift_cards object_storage rest (code_index + 1)
            (ord\<lparr>gift_cards := gift_cards ord @ [gift_card]\<rparr>)
      | None \<Rightarrow>
          resolve_gift_cards object_storage rest code_index
            (append_error
               (make_error (''Gift card with code '' @ gift_code @ '' doesn't exist.'')
                  (''gift_cards.['' @ str_nat code_index @ '']'') NOT_FOUND) ord))"

text \<open>
  \<open>order.errors[-1]\<close> raises \<open>IndexError\<close> on an empty list; it is read only when no user
  was found.
\<close>

definition get_instances_related_to_order ::
  "collaborators \<Rightarrow> OrderBulkCreateInput \<Rightarrow> OrderBulkClass \<Rightarrow> object_storage
     \<Rightarrow> py_error + OrderBulkClass" where
  "get_instances_related_to_order ext order_input ord object_storage =
     (let (errs1, found_user) =
            get_instance_with_errors (user_input_get (oi_user order_input)) ''User''
              [(''id'', ''id''), (''email'', ''email''),
               (''external_reference'', ''external_reference'')]
              (errors ord) object_storage ''user''
      in if found_user = None \<and> errs1 = [] then Inl IndexError
         else
           (let errs2 =
                  (if found_user = None \<and> code (last errs1) = Some NOT_FOUND
                      \<and> truthy (ui_email (oi_user order_input))
                   then butlast errs1 else errs1);
                (errs3, found_channel) =
                  get_instance_with_errors (order_input_get order_input) ''Channel''
                    [(''channel'', ''slug'')] errs2 object_storage [];
                (errs4, billing) =
                  (case validate_address ext (oi_billing_address order_input) of
                     Some a \<Rightarrow> (errs3, Some a)
                   | None \<Rightarrow>
                       (errs3 @ [make_error ''Invalid billing address.'' ''billing_address'' INVALID],
                        None));
                (errs5, shipping) =
                  (case oi_shipping_address order_input of
                     None \<Rightarrow> (errs4, None)
                   | Some shipping_address_input \<Rightarrow>
                       (case validate_address ext shipping_address_input of
                          Some a \<Rightarrow> (errs4, Some a)
                        | None \<Rightarrow>
                            (errs4 @ [make_error ''Invalid shipping address.'' ''shipping_address''
                                        INVALID], None)));
                (errs6, found_voucher) =
                  (if truthy (oi_voucher order_input)
                   then get_instance_with_errors (order_input_get order_input) ''Voucher''
                          [(''voucher'', ''code'')] errs5 object_storage []
                   else (errs5, None));
                ord1 = resolve_gift_cards object_storage (oi_gift_cards order_input) 0
                         (ord\<lparr>errors := errs6\<rparr>)
            in Inr (ord1\<lparr>user := found_user, channel := found_channel,
                         billing_address := billing, shipping_address := shipping,
                         voucher := found_voucher\<rparr>)))"

subsection \<open>Amounts\<close>

record LineAmounts =
  la_total_gross :: decimal
  la_total_net :: decimal
  la_unit_gross :: decimal
  la_unit_net :: decimal
  la_undiscounted_total_gross :: decimal
  la_undiscounted_total_net :: decimal
  la_undiscounted_unit_gross :: decimal
  la_undiscounted_unit_net :: decimal
  la_quantity :: int
  la_tax_rate :: "decimal option"

record OrderAmounts =
  oa_shipping_price_gross :: decimal
  oa_shipping_price_net :: decimal
  oa_total_gross :: decimal
  oa_total_net :: decimal
  oa_undiscounted_total_gross :: decimal
  oa_undiscounted_total_net :: decimal
  oa_shipping_tax_rate :: decimal

record DeliveryMethod =
  dm_warehouse :: "Warehouse option"
  dm_shipping_method :: "ShippingMethod option"
  dm_shipping_tax_class :: "TaxClass option"
  dm_shipping_tax_class_metadata :: "MetadataInput list"
  dm_shipping_tax_class_private_metadata :: "MetadataInput list"

definition round_half_even :: "rat \<Rightarrow> int" where
  "round_half_even x =
     (let f = \<lfloor>x\<rfloor>; d = x - of_int f
      in if d < 1 / 2 then f else if 1 / 2 < d then f + 1 else if even f then f else f + 1)"

text \<open>
  Modelled from the spec: \<open>quantize_price\<close> of core/prices.py, which is not among the
  sources. The spec (4.2): the quotient is quantized to the currency's minor-unit precision,
  that is to the number of decimal places the currency defines, halves being rounded by the
  rounding rule (to the even neighbour, the rule of Python's decimal context).
\<close>

definition quantize_price :: "collaborators \<Rightarrow> decimal \<Rightarrow> string \<Rightarrow> decimal" where
  "quantize_price ext price currency =
     (let number_places = 10 ^ get_currency_precision ext currency
      in of_int (round_half_even (price * number_places)) / number_places)"

definition make_order_line_calculations ::
  "collaborators \<Rightarrow> OrderBulkCreateOrderLineInput \<Rightarrow> OrderBulkError list \<Rightarrow> string \<Rightarrow> nat
     \<Rightarrow> OrderBulkError list \<times> LineAmounts option" where
  "make_order_line_calculations ext line_input errs currency index =
     (let gross_amount = gross (li_total_price line_input);
          net_amount = net (li_total_price line_input);
          undiscounted_gross_amount = gross (li_undiscounted_total_price line_input);
          undiscounted_net_amount = net (li_undiscounted_total_price line_input);
          line_qty = li_quantity line_input;
          tax_rate = li_tax_rate line_input;
          errs1 = (if line_qty < 1
                   then errs @ [make_error
                          ''Invalid quantity. Must be integer greater then or equal to 1.''
                          (''lines.['' @ str_nat index @ ''].quantity'') INVALID_QUANTITY]
                   else errs);
          errs2 = (if gross_amount < net_amount
                   then errs1 @ [make_error ''Net price can't be greater then gross price.''
                          (''lines.['' @ str_nat index @ ''].total_price'') PRICE_ERROR]
                   else errs1);
          errs3 = (if undiscounted_gross_amount < undiscounted_net_amount
                   then errs2 @ [make_error ''Net price can't be greater then gross price.''
                          (''lines.['' @ str_nat index @ ''].undiscounted_total_price'')
                          PRICE_ERROR]
                   else errs2);
          is_exit_error = (line_qty < 1 \<or> gross_amount < net_amount
                             \<or> undiscounted_gross_amount < undiscounted_net_amount)
      in if is_exit_error then (errs3, None)
         else
           (errs3,
            Some \<lparr>la_total_gross = gross_amount,
                  la_total_net = net_amount,
                  la_unit_gross = quantize_price ext (gross_amount / of_int line_qty) currency,
                  la_unit_net = quantize_price ext (net_amount / of_int line_qty) currency,
                  la_undiscounted_total_gross = undiscounted_gross_amount,
                  la_undiscounted_total_net = undiscounted_net_amount,
                  la_undiscounted_unit_gross =
                    quantize_price ext (undiscounted_gross_amount / of_int line_qty) currency,
                  la_undiscounted_unit_net =
                    quantize_price ext (undiscounted_net_amount / of_int line_qty) currency,
                  la_quantity = line_qty,
                  la_tax_rate =
                    (if tax_rate = None \<and> net_amount > 0
                     then Some (gross_amount / net_amount - 1) else tax_rate)\<rparr>))"

text \<open>
  \<open>make_order_calculations\<close>. Dividing a decimal by zero raises; the price read from the
  database is remembered in \<open>object_storage\<close>, which is returned.
\<close>

definition make_order_calculations ::
  "collaborators \<Rightarrow> DeliveryMethod \<Rightarrow> OrderLine list \<Rightarrow> Channel
     \<Rightarrow> OrderBulkCreateDeliveryMethodInput \<Rightarrow> object_storage
     \<Rightarrow> py_error + (OrderAmounts \<times> object_storage)" where
  "make_order_calculations ext delivery_method order_lines chan delivery_input object_storage =
     (let rate0 = (case di_shipping_tax_rate delivery_input of Some r \<Rightarrow> r | None \<Rightarrow> 0);
          totals = (\<lambda>shipping_net shipping_gross rate.
            \<lparr>oa_shipping_price_gross = shipping_gross,
             oa_shipping_price_net = shipping_net,
             oa_total_gross = sum_list (map total_price_gross_amount order_lines),
             oa_total_net = sum_list (map total_price_net_amount order_lines),
             oa_undiscounted_total_gross =
               sum_list (map undiscounted_total_price_gross_amount order_lines),
             oa_undiscounted_total_net =
               sum_list (map undiscounted_total_price_net_amount order_lines),
             oa_shipping_tax_rate = rate\<rparr>)
      in case dm_shipping_method delivery_method of
           None \<Rightarrow> Inr (totals 0 0 rate0, object_storage)
         | Some shipping_method \<Rightarrow>
             (case di_shipping_price delivery_input of
                Some shipping_price \<Rightarrow>
                  if net shipping_price = 0 then Inl DivisionByZero
                  else Inr (totals (net shipping_price) (gross shipping_price)
                              (gross shipping_price / net shipping_price - 1), object_storage)
              | None \<Rightarrow>
                  (let lookup_key = ''shipping_price.'' @ pk shipping_method;
                       cached = (case object_storage lookup_key of
                                   Some (Price a) \<Rightarrow> (if a = 0 then None else Some a)
                                 | _ \<Rightarrow> None);
                       db_price_amount =
                         (case cached of
                            Some a \<Rightarrow> Some a
                          | None \<Rightarrow> shipping_method_channel_listing_price ext
                                      (pk shipping_method) (pk chan))
                   in case db_price_amount of
                        None \<Rightarrow> Inr (totals 0 0 rate0, object_storage)
                      | Some a \<Rightarrow>
                          if a = 0 then Inr (totals 0 0 rate0, object_storage)
                          else Inr (totals a (a * (1 + rate0)) rate0,
                                    object_storage(lookup_key \<mapsto> Price a)))))"

definition get_delivery_method ::
  "OrderBulkCreateDeliveryMethodInput \<Rightarrow> OrderBulkError list \<Rightarrow> object_storage
     \<Rightarrow> OrderBulkError list \<times> DeliveryMethod option" where
  "get_delivery_method input errs object_storage =
     (let is_warehouse_delivery = truthy (di_warehouse_id input);
          is_shipping_delivery = truthy (di_shipping_method_id input);
          errs1 = (if is_warehouse_delivery \<and> is_shipping_delivery
                   then errs @ [make_error
                          ''Can't provide both warehouse and shipping method IDs.''
                          ''delivery_method'' TOO_MANY_IDENTIFIERS]
                   else errs);
          (errs2, found_warehouse) =
            (if is_warehouse_delivery
             then get_instance_with_errors (delivery_input_get input) ''Warehouse''
                    [(''warehouse_id'', ''id'')] errs1 object_storage ''delivery_method''
             else (errs1, None));
          (errs3, found_shipping_method) =
            (if is_shipping_delivery
             then get_instance_with_errors (delivery_input_get input) ''ShippingMethod''
                    [(''shipping_method_id'', ''id'')] errs2 object_storage ''delivery_method''
             else (errs2, None));
          (errs4, found_tax_class) =
            (if is_shipping_delivery
             then get_instance_with_errors (delivery_input_get input) ''TaxClass''
                    [(''shipping_tax_class_id'', ''id'')] errs3 object_storage ''delivery_method''
             else (errs3, None))
      in if found_warehouse = None \<and> found_shipping_method = None
         then (errs4 @ [make_error ''No delivery method provided.'' ''delivery_method'' REQUIRED],
               None)
         else (errs4,
               Some \<lparr>dm_warehouse = found_warehouse,
                     dm_shipping_method = found_shipping_method,
                     dm_shipping_tax_class = found_tax_class,
                     dm_shipping_tax_class_metadata =
                       (if is_shipping_delivery then di_shipping_tax_class_metadata input else []),
                     dm_shipping_tax_class_private_metadata =
                       (if is_shipping_delivery
                        then di_shipping_tax_class_private_metadata input else [])\<rparr>))"

subsection \<open>Notes, discounts, invoices, lines and fulfillments of one order\<close>

definition create_single_note ::
  "collaborators \<Rightarrow> OrderBulkCreateNoteInput \<Rightarrow> OrderBulkClass \<Rightarrow> object_storage \<Rightarrow> nat
     \<Rightarrow> OrderBulkClass \<times> OrderEvent option" where
  "create_single_note ext note_input ord object_storage index =
     (if length (ni_message note_input) > MAX_NOTE_LENGTH
      then (append_error
              (make_error
                 (''Note message exceeds character limit: '' @ str_nat MAX_NOTE_LENGTH @ ''.'')
                 (''notes.['' @ str_nat index @ ''].message'') NOTE_LENGTH) ord, None)
      else
        (let (ord1, date) =
               (case ni_date note_input of
                  None \<Rightarrow> (ord, None)
                | Some d \<Rightarrow>
                    if \<not> is_datetime_valid ext d
                    then (append_error
                            (future_date_error ''Note''
                               (''notes.['' @ str_nat index @ ''].date'')) ord,
                          Some (timezone_now ext))
                    else (ord, Some d));
             user_key_map = [(''user_id'', ''id''), (''user_email'', ''email''),
                             (''user_external_reference'', ''external_reference'')];
             (errs2, found_user) =
               (if \<exists>k \<in> set (map fst user_key_map). truthy (note_input_get note_input k)
                then get_instance_with_errors (note_input_get note_input) ''User'' user_key_map
                       (errors ord1) object_storage (''notes.['' @ str_nat index @ '']'')
                else (errors ord1, None));
             (errs3, found_app) =
               (if truthy (ni_app_id note_input)
                then get_instance_with_errors (note_input_get note_input) ''App''
                       [(''app_id'', ''id'')] errs2 object_storage
                       (''notes.['' @ str_nat index @ '']'')
                else (errs2, None));
             both = (found_user \<noteq> None \<and> found_app \<noteq> None);
             errs4 = (if both
                      then errs3 @ [make_error
                             ''Note input contains both user and app identifier.''
                             (''notes.['' @ str_nat index @ '']'') TOO_MANY_IDENTIFIERS]
                      else errs3)
         in (ord1\<lparr>errors := errs4\<rparr>,
             Some \<lparr>event_date = date, event_message = ni_message note_input,
                   event_user = (if both then None else found_user),
                   event_app = (if both then None else found_app)\<rparr>)))"

definition create_single_discount ::
  "collaborators \<Rightarrow> OrderDiscountCommonInput \<Rightarrow> OrderBulkClass \<Rightarrow> OrderAmounts \<Rightarrow> string \<Rightarrow> nat
     \<Rightarrow> OrderBulkClass \<times> OrderDiscount" where
  "create_single_discount ext discount_input ord order_amounts currency index =
     (let max_total = oa_undiscounted_total_gross order_amounts;
          ord1 = (case validate_order_discount_input ext max_total discount_input of
                    None \<Rightarrow> ord
                  | Some err_message \<Rightarrow>
                      append_error
                        (make_error err_message (''discounts.['' @ str_nat index @ '']'') INVALID)
                        ord)
      in (ord1, \<lparr>discount_value_type = dsc_value_type discount_input,
                 discount_value = dsc_value discount_input,
                 discount_reason = dsc_reason discount_input\<rparr>))"

definition create_single_invoice ::
  "collaborators \<Rightarrow> OrderBulkCreateInvoiceInput \<Rightarrow> OrderBulkClass \<Rightarrow> nat
     \<Rightarrow> OrderBulkClass \<times> Invoice" where
  "create_single_invoice ext invoice_input ord index =
     (let (ord1, created_at) =
            (if \<not> is_datetime_valid ext (ii_created_at invoice_input)
             then (append_error
                     (future_date_error ''Invoice''
                        (''invoices.['' @ str_nat index @ ''].created_at'')) ord,
                   None)
             else (ord, Some (ii_created_at invoice_input)));
          (ord2, url) =
            (case ii_url invoice_input of
               None \<Rightarrow> (ord1, None)
             | Some u \<Rightarrow>
                 if u = [] then (ord1, Some u)
                 else if url_validator ext u then (ord1, Some u)
                 else (append_error
                         (make_error ''Invalid URL format.''
                            (''invoices.['' @ str_nat index @ ''].url'') INVALID) ord1,
                       None));
          (errs3, metadata) =
            (if ii_metadata invoice_input \<noteq> []
             then process_metadata ext (ii_metadata invoice_input) (errors ord2)
                    (''invoices.['' @ str_nat index @ ''].metadata'') []
             else (errors ord2, []));
          (errs4, private_metadata) =
            (if ii_private_metadata invoice_input \<noteq> []
             then process_metadata ext (ii_private_metadata invoice_input) errs3
                    (''invoices.['' @ str_nat index @ ''].private_metadata'') []
             else (errs3, []))
      in (ord2\<lparr>errors := errs4\<rparr>,
          \<lparr>invoice_number = ii_number invoice_input, external_url = url,
           invoice_created_at = created_at, invoice_metadata = metadata,
           invoice_private_metadata = private_metadata\<rparr>))"

definition create_single_order_line ::
  "collaborators \<Rightarrow> OrderBulkCreateOrderLineInput \<Rightarrow> OrderBulkClass \<Rightarrow> object_storage
     \<Rightarrow> OrderBulkCreateInput \<Rightarrow> nat \<Rightarrow> OrderBulkClass \<times> OrderBulkOrderLine option" where
  "create_single_order_line ext order_line_input ord object_storage order_input index =
     (let p = ''lines.['' @ str_nat index @ '']'';
          (errs1, found_variant) =
            get_instance_with_errors (line_input_get order_line_input) ''ProductVariant''
              [(''variant_id'', ''id''), (''variant_external_reference'', ''external_reference''),
               (''variant_sku'', ''sku'')] (errors ord) object_storage p
      in case found_variant of
           None \<Rightarrow> (ord\<lparr>errors := errs1\<rparr>, None)
         | Some line_variant \<Rightarrow>
            (let (errs2, found_warehouse) =
                   get_instance_with_errors (line_input_get order_line_input) ''Warehouse''
                     [(''warehouse'', ''id'')] errs1 object_storage p
             in case found_warehouse of
                  None \<Rightarrow> (ord\<lparr>errors := errs2\<rparr>, None)
                | Some line_warehouse \<Rightarrow>
                   (let (errs3, tax_class) =
                          get_instance_with_errors (line_input_get order_line_input) ''TaxClass''
                            [(''tax_class_id'', ''id'')] errs2 object_storage p;
                        tax_class_name =
                          (case li_tax_class_name order_line_input of
                             Some n \<Rightarrow> Some n
                           | None \<Rightarrow> map_option name tax_class);
                        (errs4, line_amounts) =
                          make_order_line_calculations ext order_line_input errs3
                            (oi_currency order_input) index
                    in case line_amounts of
                         None \<Rightarrow> (ord\<lparr>errors := errs4\<rparr>, None)
                       | Some amounts \<Rightarrow>
                          (let errs5 =
                                 (if \<not> is_datetime_valid ext (li_created_at order_line_input)
                                  then errs4 @ [make_error
                                         ''Order line input contains future date.''
                                         (p @ ''.created_at'') FUTURE_DATE]
                                  else errs4);
                               (errs6, metadata) =
                                 (if li_metadata order_line_input \<noteq> []
                                  then process_metadata ext (li_metadata order_line_input) errs5
                                         (p @ ''.metadata'') []
                                  else (errs5, []));
                               (errs7, private_metadata) =
                                 (if li_private_metadata order_line_input \<noteq> []
                                  then process_metadata ext (li_private_metadata order_line_input)
                                         errs6 (p @ ''.private_metadata'') []
                                  else (errs6, []));
                               (errs8, tax_class_metadata) =
                                 (if li_tax_class_metadata order_line_input \<noteq> []
                                  then process_metadata ext (li_tax_class_metadata order_line_input)
                                         errs7 (p @ ''.tax_class_metadata'') []
                                  else (errs7, []));
                               (errs9, tax_class_private_metadata) =
                                 (if li_tax_class_private_metadata order_line_input \<noteq> []
                                  then process_metadata ext
                                         (li_tax_class_private_metadata order_line_input)
                                         errs8 (p @ ''.tax_class_private_metadata'') []
                                  else (errs8, []))
                           in (ord\<lparr>errors := errs9\<rparr>,
                               Some \<lparr>ol_line =
                                 \<lparr>variant = line_variant,
                                  product_name =
                                    (case li_product_name order_line_input of
                                       Some n \<Rightarrow> n | None \<Rightarrow> []),
                                  line_variant_name =
                                    (case li_variant_name order_line_input of
                                       Some n \<Rightarrow> n | None \<Rightarrow> name line_variant),
                                  line_created_at = li_created_at order_line_input,
                                  line_quantity = la_quantity amounts,
                                  unit_price_net_amount = la_unit_net amounts,
                                  unit_price_gross_amount = la_unit_gross amounts,
                                  total_price_net_amount = la_total_net amounts,
                                  total_price_gross_amount = la_total_gross amounts,
                                  undiscounted_unit_price_net_amount =
                                    la_undiscounted_unit_net amounts,
                                  undiscounted_unit_price_gross_amount =
                                    la_undiscounted_unit_gross amounts,
                                  undiscounted_total_price_net_amount =
                                    la_undiscounted_total_net amounts,
                                  undiscounted_total_price_gross_amount =
                                    la_undiscounted_total_gross amounts,
                                  line_tax_rate = la_tax_rate amounts,
                                  line_tax_class = tax_class,
                                  line_tax_class_name = tax_class_name,
                                  line_metadata = metadata,
                                  line_private_metadata = private_metadata,
                                  line_tax_class_metadata = tax_class_metadata,
                                  line_tax_class_private_metadata = tax_class_private_metadata,
                                  quantity_fulfilled = 0\<rparr>,
                                 ol_warehouse = line_warehouse\<rparr>)))))"

text \<open>
  The loop of \<open>create_single_fulfillment\<close> over the lines of the fulfillment input: the
  errors, and the fulfillment lines unless a \<open>return None\<close> was met.
\<close>

fun create_fulfillment_lines ::
  "object_storage \<Rightarrow> OrderBulkOrderLine list \<Rightarrow> nat \<Rightarrow> OrderBulkCreateFulfillmentLineInput list
     \<Rightarrow> nat \<Rightarrow> OrderBulkError list \<Rightarrow> OrderBulkFulfillmentLine list
     \<Rightarrow> OrderBulkError list \<times> OrderBulkFulfillmentLine list option" where
  "create_fulfillment_lines object_storage order_lines index [] line_index errs acc =
     (errs, Some acc)"
| "create_fulfillment_lines object_storage order_lines index (line_input # rest) line_index
     errs acc =
     (let p = ''fulfillments.['' @ str_nat index @ ''].lines.['' @ str_nat line_index @ '']'';
          (errs1, found_variant) =
            get_instance_with_errors (fulfillment_line_input_get line_input) ''ProductVariant''
              [(''variant_id'', ''id''), (''variant_external_reference'', ''external_reference''),
               (''variant_sku'', ''sku'')] errs object_storage p
      in case found_variant of
           None \<Rightarrow> (errs1, None)
         | Some line_variant \<Rightarrow>
            (let (errs2, found_warehouse) =
                   get_instance_with_errors (fulfillment_line_input_get line_input) ''Warehouse''
                     [(''warehouse'', ''id'')] errs1 object_storage p
             in case found_warehouse of
                  None \<Rightarrow> (errs2, None)
                | Some line_warehouse \<Rightarrow>
                   (let order_line_index = fli_order_line_index line_input
                    in if order_line_index < 0
                       then (errs2 @ [make_error ''Order line index can't be negative.''
                                        (p @ ''.order_line_index'') NEGATIVE_INDEX], None)
                       else if nat order_line_index \<ge> length order_lines
                       then (errs2 @ [make_error
                                        (''There is no order line with index: ''
                                           @ str_int order_line_index @ ''.'')
                                        (p @ ''.order_line_index'') NO_RELATED_ORDER_LINE], None)
                       else
                         (let referenced = order_lines ! nat order_line_index
                          in if pk (ol_warehouse referenced) \<noteq> pk line_warehouse
                             then (errs2 @ [make_error
                                     ''Fulfillment line's warehouse is different then order line's warehouse.''
                                     (p @ ''.warehouse'') ORDER_LINE_FULFILLMENT_LINE_MISMATCH],
                                   None)
                             else if pk (variant (ol_line referenced)) \<noteq> pk line_variant
                             then (errs2 @ [make_error
                                     ''Fulfillment line's product variant is different then order line's product variant.''
                                     (p @ ''.variant_id'') ORDER_LINE_FULFILLMENT_LINE_MISMATCH],
                                   None)
                             else create_fulfillment_lines object_storage order_lines index rest
                                    (line_index + 1) errs2
                                    (acc @ [\<lparr>fl_line =
                                              \<lparr>order_line = nat order_line_index,
                                               fulfillment_line_quantity = fli_quantity line_input\<rparr>,
                                             fl_warehouse = line_warehouse\<rparr>])))))"

definition create_single_fulfillment ::
  "OrderBulkCreateFulfillmentInput \<Rightarrow> OrderBulkOrderLine list \<Rightarrow> OrderBulkClass
     \<Rightarrow> object_storage \<Rightarrow> nat \<Rightarrow> OrderBulkClass \<times> OrderBulkFulfillment option" where
  "create_single_fulfillment fulfillment_input order_lines ord object_storage index =
     (let new_fulfillment =
            \<lparr>tracking_number = (case fi_tracking_code fulfillment_input of
                                   Some c \<Rightarrow> c | None \<Rightarrow> []),
             fulfillment_order = 1\<rparr>;
          (errs, created) =
            create_fulfillment_lines object_storage order_lines index
              (fi_lines fulfillment_input) 0 (errors ord) []
      in (ord\<lparr>errors := errs\<rparr>,
          map_option (\<lambda>ls. \<lparr>fulfillment = new_fulfillment, fulfillment_lines = ls\<rparr>) created))"

subsection \<open>One order: \<open>create_single_order\<close>\<close>

text \<open>
  What changes from one order of the batch to the next besides the orders themselves: the
  lookup cache (it learns shipping prices) and the database sequence that gives a new
  \<open>Order\<close> object its default number.
\<close>

record world =
  storage :: object_storage
  order_number_seq :: int

definition new_Order :: "string \<Rightarrow> order_number \<Rightarrow> Order" where
  "new_Order currency n =
     \<lparr>number = n, order_currency = currency, order_created_at = None, order_status = None,
      order_user = None, order_user_email = None, order_channel = None,
      order_billing_address = None, order_shipping_address = None, order_voucher = None,
      shipping_tax_rate = 0, shipping_price_gross_amount = 0, shipping_price_net_amount = 0,
      total_gross_amount = 0, total_net_amount = 0, undiscounted_total_gross_amount = 0,
      undiscounted_total_net_amount = 0, order_redirect_url = None, order_metadata = [],
      order_private_metadata = [], shipping_tax_class_metadata = [],
      shipping_tax_class_private_metadata = []\<rparr>"

fun create_order_lines ::
  "collaborators \<Rightarrow> OrderBulkCreateOrderLineInput list \<Rightarrow> nat \<Rightarrow> OrderBulkCreateInput
     \<Rightarrow> object_storage \<Rightarrow> OrderBulkClass \<Rightarrow> OrderBulkClass" where
  "create_order_lines ext [] order_line_index order_input object_storage ord = ord"
| "create_order_lines ext (order_line_input # rest) order_line_index order_input
     object_storage ord =
     (case create_single_order_line ext order_line_input ord object_storage order_input
             order_line_index of
        (ord1, Some created) \<Rightarrow>
          create_order_lines ext rest (order_line_index + 1) order_input object_storage
            (ord1\<lparr>lines := lines ord1 @ [created]\<rparr>)
      | (ord1, None) \<Rightarrow>
          create_order_lines ext rest (order_line_index + 1) order_input object_storage
            (ord1\<lparr>is_critical_error := True\<rparr>))"

fun create_notes ::
  "collaborators \<Rightarrow> OrderBulkCreateNoteInput list \<Rightarrow> nat \<Rightarrow> object_storage \<Rightarrow> OrderBulkClass
     \<Rightarrow> OrderBulkClass" where
  "create_notes ext [] note_index object_storage ord = ord"
| "create_notes ext (note_input # rest) note_index object_storage ord =
     (case create_single_note ext note_input ord object_storage note_index of
        (ord1, Some note) \<Rightarrow>
          create_notes ext rest (note_index + 1) object_storage
            (ord1\<lparr>order_notes := order_notes ord1 @ [note]\<rparr>)
      | (ord1, None) \<Rightarrow> create_notes ext rest (note_index + 1) object_storage ord1)"

fun create_fulfillments ::
  "OrderBulkCreateFulfillmentInput list \<Rightarrow> nat \<Rightarrow> object_storage \<Rightarrow> OrderBulkClass
     \<Rightarrow> OrderBulkClass" where
  "create_fulfillments [] fulfillment_index object_storage ord = ord"
| "create_fulfillments (fulfillment_input # rest) fulfillment_index object_storage ord =
     (case create_single_fulfillment fulfillment_input (lines ord) ord object_storage
             fulfillment_index of
        (ord1, Some created) \<Rightarrow>
          create_fulfillments rest (fulfillment_index + 1) object_storage
            (ord1\<lparr>fulfillments := fulfillments ord1 @ [created]\<rparr>)
      | (ord1, None) \<Rightarrow>
          create_fulfillments rest (fulfillment_index + 1) object_storage
            (ord1\<lparr>is_critical_error := True\<rparr>))"

fun create_transactions ::
  "collaborators \<Rightarrow> TransactionCreateInput list \<Rightarrow> nat \<Rightarrow> OrderBulkClass \<Rightarrow> OrderBulkClass" where
  "create_transactions ext [] transaction_index ord = ord"
| "create_transactions ext (transaction_input # rest) transaction_index ord =
     (case prepare_transaction_item_for_order ext transaction_input of
        Inr item \<Rightarrow>
          create_transactions ext rest (transaction_index + 1)
            (ord\<lparr>transactions := transactions ord @ [item]\<rparr>)
      | Inl error_dict \<Rightarrow>
          create_transactions ext rest (transaction_index + 1)
            (ord\<lparr>errors := errors ord
                @ map (\<lambda>(m, c). \<lparr>message = m, code = Some c,
                         path = Some (''transactions.['' @ str_nat transaction_index @ '']'')\<rparr>)
                    error_dict\<rparr>))"

fun create_invoices ::
  "collaborators \<Rightarrow> OrderBulkCreateInvoiceInput list \<Rightarrow> nat \<Rightarrow> OrderBulkClass \<Rightarrow> OrderBulkClass" where
  "create_invoices ext [] invoice_index ord = ord"
| "create_invoices ext (invoice_input # rest) invoice_index ord =
     (case create_single_invoice ext invoice_input ord invoice_index of
        (ord1, invoice) \<Rightarrow>
          create_invoices ext rest (invoice_index + 1) (ord1\<lparr>invoices := invoices ord1 @ [invoice]\<rparr>))"

fun create_discounts ::
  "collaborators \<Rightarrow> OrderDiscountCommonInput list \<Rightarrow> nat \<Rightarrow> OrderAmounts \<Rightarrow> string
     \<Rightarrow> OrderBulkClass \<Rightarrow> OrderBulkClass" where
  "create_discounts ext [] discount_index order_amounts currency ord = ord"
| "create_discounts ext (discount_input # rest) discount_index order_amounts currency ord =
     (case create_single_discount ext discount_input ord order_amounts currency discount_index of
        (ord1, discount) \<Rightarrow>
          create_discounts ext rest (discount_index + 1) order_amounts currency
            (ord1\<lparr>discounts := discounts ord1 @ [discount]\<rparr>))"

text \<open>
  \<open>create_single_order\<close> from the comment \<open># create transactions\<close> to its end, for an order
  that has its record \<open>r\<close>: the remaining loops, the status check, the fields of the record
  and its metadata.
\<close>

definition complete_single_order ::
  "collaborators \<Rightarrow> OrderBulkCreateInput \<Rightarrow> DeliveryMethod \<Rightarrow> OrderAmounts \<Rightarrow> Order
     \<Rightarrow> OrderBulkClass \<Rightarrow> OrderBulkClass" where
  "complete_single_order ext order_input delivery_method order_amounts r ord =
     (let ord1 = create_transactions ext (oi_transactions order_input) 0 ord;
          ord2 = create_invoices ext (oi_invoices order_input) 0 ord1;
          ord3 = create_discounts ext (oi_discounts order_input) 0 order_amounts
                   (oi_currency order_input) ord2;
          ord4 = validate_order_status (oi_status order_input) ord3;
          r1 = r\<lparr>number := (case oi_number order_input of
                               None \<Rightarrow> number r
                             | Some n \<Rightarrow> if n = [] then number r else Input_number n),
                 order_channel := channel ord4,
                 order_created_at := Some (oi_created_at order_input),
                 order_status := Some (oi_status order_input),
                 order_user := user ord4,
                 order_billing_address := billing_address ord4,
                 order_shipping_address := shipping_address ord4,
                 order_user_email :=
                   (case user ord4 of
                      Some u \<Rightarrow> Some (email u)
                    | None \<Rightarrow> ui_email (oi_user order_input)),
                 shipping_tax_rate := oa_shipping_tax_rate order_amounts,
                 shipping_price_gross_amount := oa_shipping_price_gross order_amounts,
                 shipping_price_net_amount := oa_shipping_price_net order_amounts,
                 total_gross_amount := oa_total_gross order_amounts,
                 undiscounted_total_gross_amount := oa_undiscounted_total_gross order_amounts,
                 total_net_amount := oa_total_net order_amounts,
                 undiscounted_total_net_amount := oa_undiscounted_total_net order_amounts,
                 order_redirect_url := oi_redirect_url order_input,
                 order_currency := oi_currency order_input,
                 order_voucher := voucher ord4\<rparr>;
          (errs5, metadata) =
            (if oi_metadata order_input \<noteq> []
             then process_metadata ext (oi_metadata order_input) (errors ord4) ''metadata''
                    (order_metadata r1)
             else (errors ord4, order_metadata r1));
          (errs6, private_metadata) =
            (if oi_private_metadata order_input \<noteq> []
             then process_metadata ext (oi_private_metadata order_input) errs5
                    ''private_metadata'' (order_private_metadata r1)
             else (errs5, order_private_metadata r1));
          (errs7, shipping_metadata) =
            (if dm_shipping_tax_class_metadata delivery_method \<noteq> []
             then process_metadata ext (dm_shipping_tax_class_metadata delivery_method) errs6
                    ''delivery_method.shipping_tax_class_metadata''
                    (shipping_tax_class_metadata r1)
             else (errs6, shipping_tax_class_metadata r1));
          (errs8, shipping_private_metadata) =
            (if dm_shipping_tax_class_private_metadata delivery_method \<noteq> []
             then process_metadata ext (dm_shipping_tax_class_private_metadata delivery_method)
                    errs7 ''delivery_method.shipping_tax_class_private_metadata''
                    (shipping_tax_class_private_metadata r1)
             else (errs7, shipping_tax_class_private_metadata r1))
      in ord4\<lparr>errors := errs8,
               order := Some (r1\<lparr>order_metadata := metadata,
                                  order_private_metadata := private_metadata,
                                  shipping_tax_class_metadata := shipping_metadata,
                                  shipping_tax_class_private_metadata :=
                                    shipping_private_metadata\<rparr>)\<rparr>)"

text \<open>
  \<open>create_single_order\<close>. The test
  \<open>delivery_method and (order.user or email) and order.channel and order.billing_address\<close>
  is the case distinction below; an exception of Python ends the call.
\<close>

definition create_single_order ::
  "collaborators \<Rightarrow> OrderBulkCreateInput \<Rightarrow> world \<Rightarrow> py_error + (OrderBulkClass \<times> world)" where
  "create_single_order ext order_input w =
     (let ord0 = validate_order_input ext order_input new_OrderBulkClass (storage w)
      in if is_critical_error ord0 then Inr (ord0, w)
         else
           (let n = order_number_seq w + 1;
                w1 = w\<lparr>order_number_seq := n\<rparr>;
                r = new_Order (oi_currency order_input) (Sequence_number n)
            in case get_instances_related_to_order ext order_input (ord0\<lparr>order := Some r\<rparr>)
                      (storage w1) of
                 Inl e \<Rightarrow> Inl e
               | Inr ord1 \<Rightarrow>
                  (let delivery_input = oi_delivery_method order_input;
                       (errs2, delivery_method) =
                          get_delivery_method delivery_input (errors ord1) (storage w1);
                       ord2 = ord1\<lparr>errors := errs2\<rparr>
                   in case (delivery_method, channel ord2, billing_address ord2) of
                        (Some dm, Some chan, Some billing) \<Rightarrow>
                          if \<not> (user ord2 \<noteq> None \<or> truthy (ui_email (oi_user order_input)))
                          then Inr (ord2\<lparr>order := None\<rparr>, w1)
                          else
                            (let ord3 = create_order_lines ext (oi_lines order_input) 0
                                          order_input (storage w1) ord2
                             in if is_critical_error ord3 then Inr (ord3\<lparr>order := None\<rparr>, w1)
                                else
                                  (case make_order_calculations ext dm (all_order_lines ord3)
                                          chan delivery_input (storage w1) of
                                     Inl e \<Rightarrow> Inl e
                                   | Inr (order_amounts, storage2) \<Rightarrow>
                                      (let w2 = w1\<lparr>storage := storage2\<rparr>;
                                           ord4 = create_notes ext (oi_notes order_input) 0
                                                    storage2 ord3;
                                           ord5 = create_fulfillments
                                                    (oi_fulfillments order_input) 0 storage2 ord4
                                       in if oi_fulfillments order_input \<noteq> []
                                             \<and> is_critical_error ord5
                                          then Inr (ord5\<lparr>order := None\<rparr>, w2)
                                          else Inr (complete_single_order ext order_input dm
                                                      order_amounts r ord5, w2))))
                      | _ \<Rightarrow> Inr (ord2\<lparr>order := None\<rparr>, w1))))"

subsection \<open>The mutation\<close>

fun create_orders ::
  "collaborators \<Rightarrow> OrderBulkCreateInput list \<Rightarrow> world \<Rightarrow> py_error + (OrderBulkClass list \<times> world)" where
  "create_orders ext [] w = Inr ([], w)"
| "create_orders ext (order_input # rest) w =
     (case create_single_order ext order_input w of
        Inl e \<Rightarrow> Inl e
      | Inr (ord, w1) \<Rightarrow>
          (case create_orders ext rest w1 of
             Inl e \<Rightarrow> Inl e
           | Inr (orders, w2) \<Rightarrow> Inr (ord # orders, w2)))"

definition bulk_limit_error :: OrderBulkError where
  "bulk_limit_error =
     \<lparr>message = ''Number of orders exceeds limit: '' @ str_nat MAX_ORDERS @ ''.'',
      code = Some BULK_LIMIT, path = None\<rparr>"

text \<open>
  \<open>perform_mutation\<close>: the database after the call, the orders the \<open>order_bulk_created\<close>
  event is sent for, and the payload. An exception leaves the transaction and nothing is
  written. The arguments \<open>error_policy\<close> and \<open>stock_update_policy\<close> may be left out. On
  the path of the batch limit the result is built with the keyword \<open>error\<close> and handed
  over as it is, not in a list.
\<close>

definition perform_mutation ::
  "collaborators \<Rightarrow> database \<Rightarrow> world \<Rightarrow> OrderBulkCreateInput list \<Rightarrow> ErrorPolicy option
     \<Rightarrow> StockUpdatePolicy option \<Rightarrow> py_error + (database \<times> Order list \<times> OrderBulkCreate)" where
  "perform_mutation ext db w orders_input error_policy_arg stock_update_policy_arg =
     (if length orders_input > MAX_ORDERS
      then (case result_with_keyword_error ext bulk_limit_error of
              Inl e \<Rightarrow> Inl e
            | Inr result \<Rightarrow> Inr (db, [], \<lparr>count = 0, results = Result_object result\<rparr>))
      else
        (case create_orders ext orders_input w of
           Inl e \<Rightarrow> Inl e
         | Inr (orders, w') \<Rightarrow>
             (let error_policy =
                    (case error_policy_arg of Some p \<Rightarrow> p | None \<Rightarrow> REJECT_EVERYTHING);
                  stock_update_policy =
                    (case stock_update_policy_arg of Some p \<Rightarrow> p | None \<Rightarrow> UPDATE)
              in Inr (commit_orders db error_policy stock_update_policy orders))))"

subsection \<open>Notions used in the statements\<close>

text \<open>
  What the caller sees of an answer: for each result the number of the order it carries,
  if any, and the codes of its errors; and the count.
\<close>

definition result_summary ::
  "py_error + database \<times> Order list \<times> OrderBulkCreate
     \<Rightarrow> (order_number option \<times> OrderBulkCreateErrorCode option list) list" where
  "result_summary answer =
     (case answer of
        Inl e \<Rightarrow> []
      | Inr (db, events, payload) \<Rightarrow>
          map (\<lambda>r. (map_option number (result_order r), map code (result_errors r)))
            (case results payload of Result_list rs \<Rightarrow> rs | Result_object r \<Rightarrow> [r]))"

definition result_count :: "py_error + database \<times> Order list \<times> OrderBulkCreate \<Rightarrow> nat option" where
  "result_count answer =
     (case answer of Inl e \<Rightarrow> None | Inr (db, events, payload) \<Rightarrow> Some (count payload))"

text \<open>
  The dates the commit has written: of the orders, of the notes and of the invoices.
\<close>

definition persisted_dates ::
  "py_error + database \<times> Order list \<times> OrderBulkCreate
     \<Rightarrow> datetime option list \<times> datetime option list \<times> datetime option list" where
  "persisted_dates answer =
     (case answer of
        Inl e \<Rightarrow> ([], [], [])
      | Inr (db, events, payload) \<Rightarrow>
          (map order_created_at (order_table db), map event_date (orderevent_table db),
           map invoice_created_at (invoice_table db)))"

text \<open>The quantity and the fulfilled quantity of every row of the table of order lines.\<close>

definition persisted_lines ::
  "py_error + database \<times> Order list \<times> OrderBulkCreate \<Rightarrow> (int \<times> int) list" where
  "persisted_lines answer =
     (case answer of
        Inl e \<Rightarrow> []
      | Inr (db, events, payload) \<Rightarrow>
          map (\<lambda>row. (line_quantity row, quantity_fulfilled row)) (orderline_table db))"

text \<open>
  How walking the lines of an order in \<open>handle_stocks\<close> may change it: only by appending
  errors, each of them together with the critical flag.
\<close>

definition stocks_frame :: "OrderBulkClass \<Rightarrow> OrderBulkClass \<Rightarrow> bool" where
  "stocks_frame ord ord' \<longleftrightarrow>
     order ord' = order ord \<and> lines ord' = lines ord \<and> fulfillments ord' = fulfillments ord
     \<and> (\<exists>es. errors ord' = errors ord @ es \<and> (es \<noteq> [] \<longrightarrow> is_critical_error ord'))
     \<and> (is_critical_error ord \<longrightarrow> is_critical_error ord')
     \<and> (is_critical_error ord' \<longrightarrow> is_critical_error ord \<or> errors ord' \<noteq> errors ord)"

text \<open>
  No line of the order has more fulfilled than ordered: for the line at each position, the
  quantities of the fulfillment lines that reference it sum to at most its quantity.
\<close>

definition fulfilled_within_ordered :: "OrderBulkClass \<Rightarrow> bool" where
  "fulfilled_within_ordered ord \<longleftrightarrow>
     list_all (\<lambda>k. dict_get (orderline_quantityfulfilled_map ord) k 0
                     \<le> line_quantity (ol_line (lines ord ! k)))
       [0..<length (lines ord)]"

subsection \<open>Sample data\<close>

definition sample_instance :: "string \<Rightarrow> model_instance" where
  "sample_instance k = \<lparr>pk = k, name = k, email = k @ ''@example.com''\<rparr>"

definition sample_line :: "string \<Rightarrow> string \<Rightarrow> int \<Rightarrow> OrderBulkOrderLine" where
  "sample_line variant_pk warehouse_pk q =
     \<lparr>ol_line =
        \<lparr>variant = sample_instance variant_pk, product_name = [], line_variant_name = variant_pk,
         line_created_at = 0, line_quantity = q, unit_price_net_amount = 1,
         unit_price_gross_amount = 1, total_price_net_amount = of_int q,
         total_price_gross_amount = of_int q, undiscounted_unit_price_net_amount = 1,
         undiscounted_unit_price_gross_amount = 1,
         undiscounted_total_price_net_amount = of_int q,
         undiscounted_total_price_gross_amount = of_int q, line_tax_rate = Some 0,
         line_tax_class = None, line_tax_class_name = None, line_metadata = [],
         line_private_metadata = [], line_tax_class_metadata = [],
         line_tax_class_private_metadata = [], quantity_fulfilled = 0\<rparr>,
      ol_warehouse = sample_instance warehouse_pk\<rparr>"

definition sample_fulfillment :: "(nat \<times> int) list \<Rightarrow> string \<Rightarrow> OrderBulkFulfillment" where
  "sample_fulfillment refs warehouse_pk =
     \<lparr>fulfillment = \<lparr>tracking_number = [], fulfillment_order = 1\<rparr>,
      fulfillment_lines =
        map (\<lambda>(i, q). \<lparr>fl_line = \<lparr>order_line = i, fulfillment_line_quantity = q\<rparr>,
                        fl_warehouse = sample_instance warehouse_pk\<rparr>) refs\<rparr>"

definition sample_order ::
  "string \<Rightarrow> OrderBulkOrderLine list \<Rightarrow> OrderBulkFulfillment list \<Rightarrow> OrderBulkClass" where
  "sample_order n ls fs =
     new_OrderBulkClass\<lparr>order := Some (new_Order ''USD'' (Input_number n)), lines := ls,
                        fulfillments := fs\<rparr>"

definition sample_stock :: "int \<Rightarrow> int \<Rightarrow> Stock" where
  "sample_stock q a =
     \<lparr>stock_pk = 1, product_variant_id = ''1'', warehouse_id = ''w1'', quantity = q,
      quantity_allocated = a\<rparr>"

definition sample_collaborators :: collaborators where
  "sample_collaborators =
     \<lparr>timezone_now = 1000,
      validate_storefront_url = (\<lambda>u. None),
      validate_address = (\<lambda>a. Some a),
      url_validator = (\<lambda>u. True),
      validate_order_discount_input = (\<lambda>t d. None),
      prepare_transaction_item_for_order = (\<lambda>t. Inr t),
      shipping_method_channel_listing_price = (\<lambda>m c. None),
      metadata_contains_empty_key = (\<lambda>m. list_ex (\<lambda>d. py_strip (fst d) = []) m),
      get_currency_precision = (\<lambda>c. 2),
      result_with_keyword_error = (\<lambda>e. Inl TypeError)\<rparr>"

definition sample_storage :: object_storage where
  "sample_storage =
     map_of [(''User.id.u1'', Instance (sample_instance ''u1'')),
             (''Channel.slug.main'', Instance (sample_instance ''c1'')),
             (''ProductVariant.id.1'', Instance (sample_instance ''1'')),
             (''Warehouse.id.w1'', Instance (sample_instance ''w1'')),
             (''TaxClass.id.t1'', Instance (sample_instance ''t1'')),
             (''Order.number.77'', Instance (sample_instance ''o77''))]"

definition sample_world :: world where
  "sample_world = \<lparr>storage = sample_storage, order_number_seq = 100\<rparr>"

definition sample_database :: "Stock list \<Rightarrow> database" where
  "sample_database stocks =
     \<lparr>address_table = [], order_table = [], orderline_table = [], orderevent_table = [],
      fulfillment_table = [], fulfillmentline_table = [], stock_table = stocks,
      transactionitem_table = [], invoice_table = [], orderdiscount_table = [],
      order_gift_cards_table = []\<rparr>"

definition sample_line_input :: "int \<Rightarrow> decimal \<Rightarrow> OrderBulkCreateOrderLineInput" where
  "sample_line_input q amount =
     \<lparr>li_variant_id = Some ''1'', li_variant_sku = None, li_variant_external_reference = None,
      li_variant_name = None, li_product_name = None, li_created_at = 0, li_quantity = q,
      li_total_price = \<lparr>gross = amount, net = amount\<rparr>,
      li_undiscounted_total_price = \<lparr>gross = amount, net = amount\<rparr>,
      li_warehouse = Some ''w1'', li_metadata = [], li_private_metadata = [],
      li_tax_rate = None, li_tax_class_id = Some ''t1'', li_tax_class_name = None,
      li_tax_class_metadata = [], li_tax_class_private_metadata = []\<rparr>"

definition sample_user_input :: OrderBulkCreateUserInput where
  "sample_user_input = \<lparr>ui_id = Some ''u1'', ui_email = None, ui_external_reference = None\<rparr>"

definition sample_order_input ::
  "string option \<Rightarrow> OrderBulkCreateOrderLineInput list \<Rightarrow> OrderBulkCreateInput" where
  "sample_order_input n ls =
     \<lparr>oi_number = n, oi_channel = Some ''main'', oi_created_at = 0, oi_status = UNFULFILLED,
      oi_user = sample_user_input, oi_billing_address = ''billing'',
      oi_shipping_address = None, oi_currency = ''USD'', oi_metadata = [],
      oi_private_metadata = [], oi_notes = [], oi_weight = None, oi_redirect_url = None,
      oi_lines = ls,
      oi_delivery_method =
        \<lparr>di_warehouse_id = Some ''w1'', di_warehouse_name = None,
         di_shipping_method_id = None, di_shipping_method_name = None,
         di_shipping_price = None, di_shipping_tax_rate = None,
         di_shipping_tax_class_id = None, di_shipping_tax_class_name = None,
         di_shipping_tax_class_metadata = [], di_shipping_tax_class_private_metadata = []\<rparr>,
      oi_gift_cards = [], oi_voucher = None, oi_discounts = [], oi_fulfillments = [],
      oi_transactions = [], oi_invoices = []\<rparr>"

definition sample_fulfillment_input :: "int \<Rightarrow> int \<Rightarrow> OrderBulkCreateFulfillmentInput" where
  "sample_fulfillment_input i q =
     \<lparr>fi_tracking_code = None,
      fi_lines = [\<lparr>fli_variant_id = Some ''1'', fli_variant_sku = None,
                   fli_variant_external_reference = None, fli_quantity = q,
                   fli_warehouse = Some ''w1'', fli_order_line_index = i\<rparr>]\<rparr>"

definition sample_note_input :: "datetime \<Rightarrow> OrderBulkCreateNoteInput" where
  "sample_note_input d =
     \<lparr>ni_message = ''note'', ni_date = Some d, ni_user_id = None, ni_user_email = None,
      ni_user_external_reference = None, ni_app_id = None\<rparr>"

definition sample_invoice_input :: "datetime \<Rightarrow> OrderBulkCreateInvoiceInput" where
  "sample_invoice_input d =
     \<lparr>ii_created_at = d, ii_number = None, ii_url = None, ii_metadata = [],
      ii_private_metadata = []\<rparr>"

section \<open>Properties\<close>

subsection \<open>The stock allocator\<close>

lemma fold_quantity:
  "fold (\<lambda>fl s. s\<lparr>quantity := quantity s - g fl\<rparr>) ls s0
     = s0\<lparr>quantity := quantity s0 - sum_list (map g ls)\<rparr>"
  by (induction ls arbitrary: s0) simp_all

lemma quantityfulfilled_sum:
  "sum_list (map (\<lambda>line. fulfillment_line_quantity (fl_line line))
         (dict_get (orderline_fulfillmentlines_map ord) i []))
   = dict_get (orderline_quantityfulfilled_map ord) i 0"
  by (simp add: dict_get_def orderline_quantityfulfilled_map_def orderline_fulfillmentlines_map_def Let_def)

lemma quantityfulfilled_errors [simp]:
  "orderline_quantityfulfilled_map (ord\<lparr>errors := e\<rparr>) = orderline_quantityfulfilled_map ord"
  "orderline_quantityfulfilled_map (ord\<lparr>is_critical_error := c\<rparr>) = orderline_quantityfulfilled_map ord"
  "orderline_quantityfulfilled_map (ord\<lparr>order := r\<rparr>) = orderline_quantityfulfilled_map ord"
  by (simp_all add: orderline_quantityfulfilled_map_def orderline_fulfillmentlines_map_def fun_eq_iff)

lemma handle_stocks_lines_found:
  assumes "map_of m (pk (variant (ol_line line)), pk (ol_warehouse line)) = Some s"
    and "dict_get (orderline_quantityfulfilled_map ord) i 0 \<le> line_quantity (ol_line line)"
  shows "handle_stocks_lines pol (line # rest) i ord m =
     handle_stocks_lines pol rest (i + 1)
       (if line_quantity (ol_line line) - dict_get (orderline_quantityfulfilled_map ord) i 0
             > quantity s - quantity_allocated s \<and> pol \<noteq> FORCE
        then (append_error (insufficient_stock_error (pk (variant (ol_line line)))
                 (pk (ol_warehouse line)) i) ord)\<lparr>is_critical_error := True\<rparr>
        else ord)
       (AList.update (pk (variant (ol_line line)), pk (ol_warehouse line))
          (s\<lparr>quantity_allocated := quantity_allocated s
                + (line_quantity (ol_line line) - dict_get (orderline_quantityfulfilled_map ord) i 0),
             quantity := quantity s - dict_get (orderline_quantityfulfilled_map ord) i 0\<rparr>) m)"
  using assms
  by (simp add: Let_def fold_quantity quantityfulfilled_sum)










subsection \<open>The commit and the batch limit\<close>

lemma save_data_stock_table:
  "stock_table (fst (save_data db orders stocks)) = bulk_update_quantity (stock_table db) stocks"
  by (simp add: save_data_def Let_def)

lemma commit_orders_stock_table:
  "stock_table (fst (commit_orders db error_policy stock_update_policy orders)) =
     bulk_update_quantity (stock_table db)
       (if stock_update_policy \<noteq> SKIP
        then snd (handle_stocks (stock_table db)
                    (handle_error_policy (validate_order_numbers orders) error_policy)
                    stock_update_policy)
        else [])"
  by (simp add: commit_orders_def process_orders_def Let_def split_beta save_data_stock_table)

lemma bulk_update_quantity_frame:
  "map (\<lambda>row. row\<lparr>quantity := 0\<rparr>) (bulk_update_quantity table stocks)
     = map (\<lambda>row. row\<lparr>quantity := 0\<rparr>) table"
  by (simp add: bulk_update_quantity_def split: option.split)

lemma bulk_update_quantity_allocated:
  "map quantity_allocated (bulk_update_quantity table stocks) = map quantity_allocated table"
  by (simp add: bulk_update_quantity_def split: option.split)

text \<open>
  Claim C10. The commit writes the stock rows with \<open>bulk_update\<close> on the column \<open>quantity\<close>
  alone: a row whose key is among the stock objects handed to \<open>save_data\<close> takes the
  quantity of that object, every other row stays as it is; the column \<open>quantity_allocated\<close>
  of the table is the one from before the commit, whatever the simulation added to the
  objects, and so is every column other than \<open>quantity\<close>. The same holds for the whole of
  \<open>perform_mutation\<close> after the orders were built.
\<close>

theorem save_data_writes_stock_quantity_only:
  "stock_table (fst (save_data db orders stocks)) =
      map (\<lambda>row. case find (\<lambda>stock. stock_pk stock = stock_pk row) stocks of
                   None \<Rightarrow> row
                 | Some stock \<Rightarrow> row\<lparr>quantity := quantity stock\<rparr>) (stock_table db)
   \<and> map quantity_allocated (stock_table (fst (save_data db orders stocks)))
        = map quantity_allocated (stock_table db)
   \<and> map (\<lambda>row. row\<lparr>quantity := 0\<rparr>) (stock_table (fst (save_data db orders stocks)))
        = map (\<lambda>row. row\<lparr>quantity := 0\<rparr>) (stock_table db)
   \<and> map quantity_allocated
        (stock_table (fst (commit_orders db error_policy stock_update_policy orders)))
        = map quantity_allocated (stock_table db)
   \<and> map (\<lambda>row. row\<lparr>quantity := 0\<rparr>)
        (stock_table (fst (commit_orders db error_policy stock_update_policy orders)))
        = map (\<lambda>row. row\<lparr>quantity := 0\<rparr>) (stock_table db)"
  unfolding save_data_stock_table commit_orders_stock_table
  by (simp only: bulk_update_quantity_frame bulk_update_quantity_allocated)
     (simp add: bulk_update_quantity_def)

lemma sample_allocation:
  "handle_stocks [sample_stock 5 0]
     [sample_order ''A'' [sample_line ''1'' ''w1'' 3] [sample_fulfillment [(0, 2)] ''w1'']] UPDATE
   = ([sample_order ''A'' [sample_line ''1'' ''w1'' 3] [sample_fulfillment [(0, 2)] ''w1'']],
      [sample_stock 3 1])"
  by (simp add: handle_stocks_def fetch_stocks_def handle_stocks_order_def
        sample_order_def sample_line_def sample_stock_def sample_instance_def sample_fulfillment_def
        new_OrderBulkClass_def stock_key_def dict_get_def orderline_quantityfulfilled_map_def
        orderline_fulfillmentlines_map_def unique_variant_ids_def unique_warehouse_ids_def Let_def)

theorem save_data_writes_stock_quantity_only_witness:
  "snd (handle_stocks [sample_stock 5 0]
          [sample_order ''A'' [sample_line ''1'' ''w1'' 3] [sample_fulfillment [(0, 2)] ''w1'']]
          UPDATE) = [sample_stock 3 1]
   \<and> stock_table (fst (save_data (sample_database [sample_stock 5 0])
          [sample_order ''A'' [sample_line ''1'' ''w1'' 3] [sample_fulfillment [(0, 2)] ''w1'']]
          [sample_stock 3 1])) = [sample_stock 3 0]"
  using save_data_writes_stock_quantity_only
    [of "sample_database [sample_stock 5 0]"
        "[sample_order ''A'' [sample_line ''1'' ''w1'' 3] [sample_fulfillment [(0, 2)] ''w1'']]"
        "[sample_stock 3 1]"]
  by (simp add: sample_allocation) (simp add: sample_database_def sample_stock_def)

subsection \<open>Unit prices\<close>









subsection \<open>Walking the lines of an order\<close>

lemma maps_append_error [simp]:
  "orderline_fulfillmentlines_map (append_error e ord) = orderline_fulfillmentlines_map ord"
  "orderline_quantityfulfilled_map (append_error e ord) = orderline_quantityfulfilled_map ord"
  "orderline_fulfillmentlines_map (ord\<lparr>is_critical_error := c\<rparr>) = orderline_fulfillmentlines_map ord"
  "orderline_quantityfulfilled_map (ord\<lparr>is_critical_error := c\<rparr>) = orderline_quantityfulfilled_map ord"
  "orderline_fulfillmentlines_map (ord\<lparr>order := r\<rparr>) = orderline_fulfillmentlines_map ord"
  "orderline_quantityfulfilled_map (ord\<lparr>order := r\<rparr>) = orderline_quantityfulfilled_map ord"
  by (simp_all add: orderline_quantityfulfilled_map_def orderline_fulfillmentlines_map_def
        append_error_def fun_eq_iff)

lemma append_error_fields [simp]:
  "order (append_error e ord) = order ord"
  "lines (append_error e ord) = lines ord"
  "fulfillments (append_error e ord) = fulfillments ord"
  "is_critical_error (append_error e ord) = is_critical_error ord"
  "errors (append_error e ord) = errors ord @ [e]"
  by (simp_all add: append_error_def)

lemma stocks_frame_refl: "stocks_frame ord ord"
  by (simp add: stocks_frame_def)

lemma stocks_frame_error:
  "stocks_frame ord ((append_error e ord)\<lparr>is_critical_error := True\<rparr>)"
  by (simp add: stocks_frame_def)

lemma stocks_frame_trans:
  assumes "stocks_frame a b" and "stocks_frame b c"
  shows "stocks_frame a c"
proof -
  from assms obtain es fs where
    e: "errors b = errors a @ es" "es \<noteq> [] \<longrightarrow> is_critical_error b"
    and f: "errors c = errors b @ fs" "fs \<noteq> [] \<longrightarrow> is_critical_error c"
    unfolding stocks_frame_def by blast
  have "errors c = errors a @ (es @ fs)" using e f by simp
  moreover have "es @ fs \<noteq> [] \<longrightarrow> is_critical_error c"
    using e f assms unfolding stocks_frame_def by auto
  moreover have "is_critical_error c \<longrightarrow> is_critical_error a \<or> errors c \<noteq> errors a"
    using e f assms unfolding stocks_frame_def by auto
  ultimately show ?thesis
    using assms unfolding stocks_frame_def by auto
qed

lemma handle_stocks_lines_frame:
  "stocks_frame ord (fst (handle_stocks_lines pol ls i ord m))"
proof (induction ls arbitrary: i ord m)
  case Nil
  show ?case by (simp add: stocks_frame_refl)
next
  case (Cons line rest)
  show ?case
  proof (cases "line_quantity (ol_line line) - dict_get (orderline_quantityfulfilled_map ord) i 0 < 0")
    case True
    then show ?thesis by (simp add: Let_def stocks_frame_error)
  next
    case nonneg: False
    then have le: "dict_get (orderline_quantityfulfilled_map ord) i 0 \<le> line_quantity (ol_line line)"
      by simp
    show ?thesis
    proof (cases "map_of m (pk (variant (ol_line line)), pk (ol_warehouse line))")
      case None
      with nonneg show ?thesis by (simp add: Let_def stocks_frame_error)
    next
      case (Some stock)
      show ?thesis
        unfolding handle_stocks_lines_found [OF Some le]
        by (rule stocks_frame_trans [OF _ Cons.IH]) (simp add: stocks_frame_refl stocks_frame_error)
    qed
  qed
qed

lemma handle_stocks_lines_checked:
  "\<not> is_critical_error (fst (handle_stocks_lines pol ls i ord m)) \<Longrightarrow> k < length ls \<Longrightarrow>
     dict_get (orderline_quantityfulfilled_map ord) (i + k) 0 \<le> line_quantity (ol_line (ls ! k))"
proof (induction ls arbitrary: i ord m k)
  case Nil
  then show ?case by simp
next
  case (Cons line rest)
  show ?case
  proof (cases "line_quantity (ol_line line) - dict_get (orderline_quantityfulfilled_map ord) i 0 < 0")
    case True
    with Cons.prems show ?thesis by (simp add: Let_def)
  next
    case nonneg: False
    then have le: "dict_get (orderline_quantityfulfilled_map ord) i 0 \<le> line_quantity (ol_line line)"
      by simp
    show ?thesis
    proof (cases "map_of m (pk (variant (ol_line line)), pk (ol_warehouse line))")
      case None
      with nonneg Cons.prems show ?thesis by (simp add: Let_def)
    next
      case (Some stock)
      define ord1 where "ord1 =
        (if line_quantity (ol_line line) - dict_get (orderline_quantityfulfilled_map ord) i 0
              > quantity stock - quantity_allocated stock \<and> pol \<noteq> FORCE
         then (append_error (insufficient_stock_error (pk (variant (ol_line line)))
                 (pk (ol_warehouse line)) i) ord)\<lparr>is_critical_error := True\<rparr>
         else ord)"
      have maps: "orderline_quantityfulfilled_map ord1 = orderline_quantityfulfilled_map ord"
        by (simp add: ord1_def)
      note step = handle_stocks_lines_found [OF Some le]
      show ?thesis
      proof (cases k)
        case 0
        with le show ?thesis by simp
      next
        case (Suc k')
        have "\<not> is_critical_error (fst (handle_stocks_lines pol rest (i + 1) ord1
                (AList.update (pk (variant (ol_line line)), pk (ol_warehouse line))
                  (stock\<lparr>quantity_allocated := quantity_allocated stock
                      + (line_quantity (ol_line line)
                          - dict_get (orderline_quantityfulfilled_map ord) i 0),
                    quantity := quantity stock
                      - dict_get (orderline_quantityfulfilled_map ord) i 0\<rparr>) m)))"
          using Cons.prems(1) unfolding step ord1_def .
        moreover have "k' < length rest" using Cons.prems(2) Suc by simp
        ultimately have "dict_get (orderline_quantityfulfilled_map ord1) ((i + 1) + k') 0
                \<le> line_quantity (ol_line (rest ! k'))"
          by (rule Cons.IH)
        then show ?thesis using Suc by (simp add: maps)
      qed
    qed
  qed
qed


subsection \<open>Order numbers\<close>

lemma validate_order_numbers_loop_length [simp]:
  "length (validate_order_numbers_loop numbers orders) = length orders"
  by (induction orders arbitrary: numbers) (simp_all split: option.split)









subsection \<open>Fulfilled and ordered quantities\<close>

lemma fulfilled_within_ordered_iff:
  "fulfilled_within_ordered ord \<longleftrightarrow>
     (\<forall>k<length (lines ord). dict_get (orderline_quantityfulfilled_map ord) k 0
                     \<le> line_quantity (ol_line (lines ord ! k)))"
  by (auto simp add: fulfilled_within_ordered_def list_all_iff)

lemma quantityfulfilled_map_cong:
  "fulfillments a = fulfillments b \<Longrightarrow>
   orderline_quantityfulfilled_map a = orderline_quantityfulfilled_map b"
  by (simp add: orderline_quantityfulfilled_map_def orderline_fulfillmentlines_map_def fun_eq_iff)

lemma fulfilled_within_ordered_cong:
  "lines a = lines b \<Longrightarrow> fulfillments a = fulfillments b \<Longrightarrow>
   fulfilled_within_ordered a = fulfilled_within_ordered b"
  by (simp add: fulfilled_within_ordered_iff quantityfulfilled_map_cong [of a b])

lemma handle_stocks_order_checked:
  assumes "\<not> is_critical_error (fst (handle_stocks_lines pol (lines ord) 0 ord m))"
  shows "fulfilled_within_ordered ord"
  unfolding fulfilled_within_ordered_iff
  using handle_stocks_lines_checked [OF assms, of _] by simp

lemma handle_stocks_orders_length [simp]:
  "length (fst (handle_stocks_orders pol orders m)) = length orders"
  by (induction orders arbitrary: m) (simp_all add: split_beta Let_def)

lemma handle_stocks_orders_nth:
  "i < length orders \<Longrightarrow>
   stocks_frame (orders ! i) (fst (handle_stocks_orders pol orders m) ! i)
   \<and> (\<not> is_critical_error (fst (handle_stocks_orders pol orders m) ! i)
        \<longrightarrow> fulfilled_within_ordered (orders ! i))"
proof (induction orders arbitrary: m i)
  case Nil
  then show ?case by simp
next
  case (Cons ord rest)
  show ?case
  proof (cases i)
    case 0
    then show ?thesis
      using handle_stocks_lines_frame [of ord pol "lines ord" 0 m]
            handle_stocks_order_checked [of pol ord m]
      by (simp add: split_beta Let_def handle_stocks_order_def)
  next
    case (Suc i')
    then show ?thesis
      using Cons.IH [of i'] Cons.prems by (simp add: split_beta Let_def)
  qed
qed

lemma handle_stocks_length [simp]:
  "length (fst (handle_stocks table orders pol)) = length orders"
  by (simp add: handle_stocks_def split_beta)

lemma handle_stocks_nth:
  "i < length orders \<Longrightarrow>
   stocks_frame (orders ! i) (fst (handle_stocks table orders pol) ! i)
   \<and> (\<not> is_critical_error (fst (handle_stocks table orders pol) ! i)
        \<longrightarrow> fulfilled_within_ordered (orders ! i))"
  using handle_stocks_orders_nth [of i orders pol "fetch_stocks table orders"]
  by (simp add: handle_stocks_def split_beta)

lemma handle_error_policy_length [simp]:
  "length (handle_error_policy orders ep) = length orders"
  by (simp add: handle_error_policy_def Let_def)

lemma handle_error_policy_nth:
  "i < length orders \<Longrightarrow>
   handle_error_policy orders ep ! i =
     (if concat (map errors orders) \<noteq> []
         \<and> (ep = REJECT_EVERYTHING \<or> ep = REJECT_FAILED_ROWS \<and> errors (orders ! i) \<noteq> [])
      then (orders ! i)\<lparr>order := None\<rparr> else orders ! i)"
  by (simp add: handle_error_policy_def Let_def)

lemma set_quantity_fulfilled_fields [simp]:
  "order (set_quantity_fulfilled ord) = order ord"
  "errors (set_quantity_fulfilled ord) = errors ord"
  "is_critical_error (set_quantity_fulfilled ord) = is_critical_error ord"
  "fulfillments (set_quantity_fulfilled ord) = fulfillments ord"
  "length (lines (set_quantity_fulfilled ord)) = length (lines ord)"
  by (simp_all add: set_quantity_fulfilled_def)

lemma set_quantity_fulfilled_line:
  "k < length (lines ord) \<Longrightarrow>
   lines (set_quantity_fulfilled ord) ! k =
     (lines ord ! k)\<lparr>ol_line := (ol_line (lines ord ! k))\<lparr>quantity_fulfilled :=
        dict_get (orderline_quantityfulfilled_map ord) k 0\<rparr>\<rparr>"
  by (simp add: set_quantity_fulfilled_def nth_enumerate_eq)

lemma set_fulfillment_order_fields [simp]:
  "order (set_fulfillment_order ord) = order ord"
  "errors (set_fulfillment_order ord) = errors ord"
  "is_critical_error (set_fulfillment_order ord) = is_critical_error ord"
  "lines (set_fulfillment_order ord) = lines ord"
  by (simp_all add: set_fulfillment_order_def)

lemma map_snd_enumerate_fun:
  "map (\<lambda>x. f (snd x)) (enumerate n xs) = map f xs"
  by (induction xs arbitrary: n) simp_all

lemma set_fulfillment_order_maps [simp]:
  "orderline_quantityfulfilled_map (set_fulfillment_order ord) = orderline_quantityfulfilled_map ord"
proof -
  have "concat (map fulfillment_lines (fulfillments (set_fulfillment_order ord)))
          = concat (map fulfillment_lines (fulfillments ord))"
    by (simp add: set_fulfillment_order_def comp_def split_beta map_snd_enumerate_fun)
  then show ?thesis
    by (simp add: orderline_quantityfulfilled_map_def orderline_fulfillmentlines_map_def fun_eq_iff)
qed


lemma prepare_order_fields [simp]:
  "order (prepare_order ord) = (if is_critical_error ord then None else order ord)"
  "errors (prepare_order ord) = errors ord"
  "is_critical_error (prepare_order ord) = is_critical_error ord"
  "length (lines (prepare_order ord)) = length (lines ord)"
  "orderline_quantityfulfilled_map (prepare_order ord) = orderline_quantityfulfilled_map ord"
  by (simp_all add: prepare_order_def Let_def
        quantityfulfilled_map_cong [of "set_quantity_fulfilled ord" ord])

lemma prepare_order_line:
  "k < length (lines ord) \<Longrightarrow>
   ol_line (lines (prepare_order ord) ! k) =
     (ol_line (lines ord ! k))\<lparr>quantity_fulfilled :=
        dict_get (orderline_quantityfulfilled_map ord) k 0\<rparr>"
  by (simp add: prepare_order_def Let_def set_quantity_fulfilled_line)

lemma prepare_order_within [simp]:
  "fulfilled_within_ordered (prepare_order ord) = fulfilled_within_ordered ord"
  by (simp add: fulfilled_within_ordered_iff prepare_order_line)

lemma process_orders_final:
  "snd (process_orders db ep sp orders) =
     map prepare_order
       (if sp \<noteq> SKIP
        then fst (handle_stocks (stock_table db)
                    (handle_error_policy (validate_order_numbers orders) ep) sp)
        else handle_error_policy (validate_order_numbers orders) ep)"
  by (simp add: process_orders_def save_data_def Let_def split_beta)

lemma process_orders_lines:
  "orderline_table (fst (process_orders db ep sp orders)) =
     orderline_table db
       @ concat (map all_order_lines
           (filter (\<lambda>ord. order ord \<noteq> None) (snd (process_orders db ep sp orders))))"
  by (simp add: process_orders_def save_data_def Let_def split_beta)

lemma process_orders_within:
  assumes sp: "sp \<noteq> SKIP"
    and final: "final \<in> set (snd (process_orders db ep sp orders))"
    and kept: "order final \<noteq> None"
  shows "fulfilled_within_ordered final"
proof -
  let ?orders2 = "handle_error_policy (validate_order_numbers orders) ep"
  let ?orders3 = "fst (handle_stocks (stock_table db) ?orders2 sp)"
  from final sp obtain ord3 where ord3: "ord3 \<in> set ?orders3" and f: "final = prepare_order ord3"
    unfolding process_orders_final by auto
  from ord3 obtain i where i: "i < length ?orders2" and nth: "ord3 = ?orders3 ! i"
    by (metis handle_stocks_length in_set_conv_nth)
  have ok: "\<not> is_critical_error ord3"
    using kept f by (simp split: if_splits)
  have "fulfilled_within_ordered (?orders2 ! i)" and fr: "stocks_frame (?orders2 ! i) ord3"
    using handle_stocks_nth [OF i, of "stock_table db" sp] ok nth by simp_all
  then have "fulfilled_within_ordered ord3"
    using fulfilled_within_ordered_cong [of ord3 "?orders2 ! i"]
    by (simp add: stocks_frame_def)
  then show ?thesis by (simp add: f)
qed

text \<open>
  Claim C5, amended. When \<open>handle_stocks\<close> walks a line whose quantity is smaller than the
  sum of the quantities of the fulfillment lines that reference it, it records the error
  \<open>INVALID_QUANTITY\<close>, sets the critical flag and stops, whatever policy it was called
  with. When the stock update policy is not \<open>SKIP\<close>, so that \<open>handle_stocks\<close> is called,
  every order that has its record at the end of the commit has no line with more fulfilled
  than ordered, the \<open>quantity_fulfilled\<close> set on each of its lines is that sum, and every
  row the commit adds to the table of order lines has \<open>quantity_fulfilled\<close> at most its
  quantity.
\<close>

theorem fulfilled_never_exceeds_ordered:
  "(line_quantity (ol_line line) - dict_get (orderline_quantityfulfilled_map ord) i 0 < 0 \<longrightarrow>
      handle_stocks_lines policy (line # rest) i ord m =
        ((append_error
            (more_fulfillments_error (pk (variant (ol_line line))) (pk (ol_warehouse line)) i)
            ord)\<lparr>is_critical_error := True\<rparr>, m))
   \<and> code (more_fulfillments_error v w i) = Some INVALID_QUANTITY
   \<and> (stock_update_policy \<noteq> SKIP \<longrightarrow>
        (\<forall>final \<in> set (snd (process_orders db error_policy stock_update_policy orders)).
           order final \<noteq> None \<longrightarrow>
             fulfilled_within_ordered final
             \<and> (\<forall>k<length (lines final).
                   quantity_fulfilled (ol_line (lines final ! k))
                     = dict_get (orderline_quantityfulfilled_map final) k 0
                   \<and> quantity_fulfilled (ol_line (lines final ! k))
                       \<le> line_quantity (ol_line (lines final ! k))))
        \<and> (\<forall>row \<in> set (drop (length (orderline_table db))
                           (orderline_table (fst (process_orders db error_policy
                                                    stock_update_policy orders)))).
              quantity_fulfilled row \<le> line_quantity row))"
proof -
  have step: "line_quantity (ol_line line) - dict_get (orderline_quantityfulfilled_map ord) i 0 < 0 \<longrightarrow>
      handle_stocks_lines policy (line # rest) i ord m =
        ((append_error
            (more_fulfillments_error (pk (variant (ol_line line))) (pk (ol_warehouse line)) i)
            ord)\<lparr>is_critical_error := True\<rparr>, m)"
    by (simp add: Let_def)
  have code: "code (more_fulfillments_error v w i) = Some INVALID_QUANTITY"
    by (simp add: more_fulfillments_error_def make_error_def)
  have set_q: "\<And>final k. final \<in> set (snd (process_orders db error_policy stock_update_policy orders))
         \<Longrightarrow> k < length (lines final) \<Longrightarrow>
         quantity_fulfilled (ol_line (lines final ! k))
            = dict_get (orderline_quantityfulfilled_map final) k 0"
    unfolding process_orders_final by (auto simp: prepare_order_line)
  have finals: "stock_update_policy \<noteq> SKIP \<Longrightarrow>
       final \<in> set (snd (process_orders db error_policy stock_update_policy orders)) \<Longrightarrow>
       order final \<noteq> None \<Longrightarrow>
         fulfilled_within_ordered final
         \<and> (\<forall>k<length (lines final).
               quantity_fulfilled (ol_line (lines final ! k))
                 = dict_get (orderline_quantityfulfilled_map final) k 0
               \<and> quantity_fulfilled (ol_line (lines final ! k))
                   \<le> line_quantity (ol_line (lines final ! k)))" for final
    using process_orders_within [of stock_update_policy final db error_policy orders]
          set_q [of final]
    by (simp add: fulfilled_within_ordered_iff)
  have rows: "stock_update_policy \<noteq> SKIP \<Longrightarrow>
       row \<in> set (drop (length (orderline_table db))
                           (orderline_table (fst (process_orders db error_policy
                                                    stock_update_policy orders)))) \<Longrightarrow>
       quantity_fulfilled row \<le> line_quantity row" for row
  proof -
    assume sp: "stock_update_policy \<noteq> SKIP"
      and "row \<in> set (drop (length (orderline_table db))
                           (orderline_table (fst (process_orders db error_policy
                                                    stock_update_policy orders))))"
    then obtain final where
      fin: "final \<in> set (snd (process_orders db error_policy stock_update_policy orders))"
      and kept: "order final \<noteq> None" and row: "row \<in> set (all_order_lines final)"
      unfolding process_orders_lines by auto
    from row obtain k where k: "k < length (lines final)" and r: "row = ol_line (lines final ! k)"
      unfolding all_order_lines_def by (auto simp: in_set_conv_nth)
    show ?thesis using finals [OF sp fin kept] k r by (simp add: fulfilled_within_ordered_iff)
  qed
  show ?thesis using step code finals rows by blast
qed

theorem fulfilled_exceeds_ordered_counterexample:
  "persisted_lines
     (perform_mutation sample_collaborators (sample_database [sample_stock 5 0]) sample_world
        [(sample_order_input (Some ''A'') [sample_line_input 1 1])
           \<lparr>oi_fulfillments := [sample_fulfillment_input 0 2]\<rparr>]
        None (Some SKIP)) = [(1, 2)]
   \<and> result_summary
     (perform_mutation sample_collaborators (sample_database [sample_stock 5 0]) sample_world
        [(sample_order_input (Some ''A'') [sample_line_input 1 1])
           \<lparr>oi_fulfillments := [sample_fulfillment_input 0 2]\<rparr>]
        None (Some SKIP)) = [(Some (Input_number ''A''), [])]"
  by code_simp


theorem fulfilled_never_exceeds_ordered_witness:
  "line_quantity (ol_line (sample_line ''1'' ''w1'' 1))
     - dict_get (orderline_quantityfulfilled_map
          (sample_order ''A'' [sample_line ''1'' ''w1'' 1] [sample_fulfillment [(0, 2)] ''w1'']))
         0 0 < 0
   \<and> handle_stocks_lines FORCE [sample_line ''1'' ''w1'' 1] 0
        (sample_order ''A'' [sample_line ''1'' ''w1'' 1] [sample_fulfillment [(0, 2)] ''w1''])
        [((''1'', ''w1''), sample_stock 5 0)]
      = ((append_error (more_fulfillments_error ''1'' ''w1'' 0)
           (sample_order ''A'' [sample_line ''1'' ''w1'' 1] [sample_fulfillment [(0, 2)] ''w1'']))
           \<lparr>is_critical_error := True\<rparr>,
         [((''1'', ''w1''), sample_stock 5 0)])
   \<and> UPDATE \<noteq> SKIP
   \<and> (\<exists>final \<in> set (snd (process_orders (sample_database [sample_stock 5 0])
                            REJECT_EVERYTHING UPDATE
                            [sample_order ''A'' [sample_line ''1'' ''w1'' 3]
                               [sample_fulfillment [(0, 2)] ''w1'']])).
         order final \<noteq> None)
   \<and> list_all fulfilled_within_ordered
        (snd (process_orders (sample_database [sample_stock 5 0])
                REJECT_EVERYTHING UPDATE
                [sample_order ''A'' [sample_line ''1'' ''w1'' 3]
                   [sample_fulfillment [(0, 2)] ''w1'']]))"
proof -
  have kept: "list_all (\<lambda>final. order final \<noteq> None)
        (snd (process_orders (sample_database [sample_stock 5 0])
                REJECT_EVERYTHING UPDATE
                [sample_order ''A'' [sample_line ''1'' ''w1'' 3]
                   [sample_fulfillment [(0, 2)] ''w1'']]))"
    by code_simp
  have neg: "line_quantity (ol_line (sample_line ''1'' ''w1'' 1))
     - dict_get (orderline_quantityfulfilled_map
          (sample_order ''A'' [sample_line ''1'' ''w1'' 1] [sample_fulfillment [(0, 2)] ''w1'']))
         0 0 < 0"
    by code_simp
  have some: "\<exists>final \<in> set (snd (process_orders (sample_database [sample_stock 5 0])
                            REJECT_EVERYTHING UPDATE
                            [sample_order ''A'' [sample_line ''1'' ''w1'' 3]
                               [sample_fulfillment [(0, 2)] ''w1'']])).
         order final \<noteq> None"
    by code_simp
  have v: "pk (variant (ol_line (sample_line ''1'' ''w1'' 1))) = ''1''"
    and w: "pk (ol_warehouse (sample_line ''1'' ''w1'' 1)) = ''w1''"
    by (simp_all add: sample_line_def sample_instance_def)
  note t = fulfilled_never_exceeds_ordered
    [where line = "sample_line ''1'' ''w1'' 1"
       and ord = "sample_order ''A'' [sample_line ''1'' ''w1'' 1] [sample_fulfillment [(0, 2)] ''w1'']"
       and i = 0 and policy = FORCE and rest = "[]" and m = "[((''1'', ''w1''), sample_stock 5 0)]"
       and stock_update_policy = UPDATE and db = "sample_database [sample_stock 5 0]"
       and error_policy = REJECT_EVERYTHING
       and orders = "[sample_order ''A'' [sample_line ''1'' ''w1'' 3] [sample_fulfillment [(0, 2)] ''w1'']]"]
  show ?thesis
    using t neg some kept unfolding v w list_all_iff by blast
qed


subsection \<open>The batch limit\<close>

text \<open>
  Claim C3. The maximum is 50 and the error built for a longer input list has the code
  \<open>BULK_LIMIT\<close>. For such a list \<open>perform_mutation\<close> does no work on any order and writes
  nothing, but it does not return the result the claim describes: it calls the constructor
  of the result type with the keyword \<open>error\<close>, which is no field of that type, and puts
  the object it gets, if it gets one, into \<open>results\<close> as it is. Whatever the constructor
  does, the answer is an exception or a payload whose \<open>results\<close> is not a list; it is never
  a payload with a list of results.
\<close>

theorem perform_mutation_bulk_limit_result:
  "MAX_ORDERS = 50
   \<and> code bulk_limit_error = Some BULK_LIMIT
   \<and> (length orders_input > MAX_ORDERS \<longrightarrow>
        perform_mutation ext db w orders_input error_policy stock_update_policy =
          (case result_with_keyword_error ext bulk_limit_error of
             Inl e \<Rightarrow> Inl e
           | Inr result \<Rightarrow> Inr (db, [], \<lparr>count = 0, results = Result_object result\<rparr>))
        \<and> perform_mutation ext db w orders_input error_policy stock_update_policy
            \<noteq> Inr (db', events, \<lparr>count = c, results = Result_list rs\<rparr>))"
  by (simp add: perform_mutation_def MAX_ORDERS_def bulk_limit_error_def split: sum.split)

theorem perform_mutation_bulk_limit_result_witness:
  "length (replicate 51 (sample_order_input None [])) > MAX_ORDERS
   \<and> perform_mutation sample_collaborators (sample_database [sample_stock 5 0]) sample_world
        (replicate 51 (sample_order_input None [])) None None = Inl TypeError
   \<and> perform_mutation sample_collaborators (sample_database [sample_stock 5 0]) sample_world
        (replicate 51 (sample_order_input None [])) None None
        \<noteq> Inr (sample_database [sample_stock 5 0], [],
               \<lparr>count = 0,
                results = Result_list [\<lparr>result_order = None,
                                        result_errors = [bulk_limit_error]\<rparr>]\<rparr>)"
  using perform_mutation_bulk_limit_result
    [of "replicate 51 (sample_order_input None [])" sample_collaborators
        "sample_database [sample_stock 5 0]" sample_world None None]
  by (simp add: MAX_ORDERS_def sample_collaborators_def)

subsection \<open>Duplicate lines\<close>

text \<open>
  Claim C8. The property \<open>order_lines_duplicates\<close> detects two lines of an order with the
  same (variant, warehouse) pair, but nothing calls it: an input with two lines for variant
  1 in warehouse w1 is built into an order for which the property holds, gets no error and
  is persisted with both lines.
\<close>

theorem duplicate_lines_persisted:
  "\<not> isl (create_single_order sample_collaborators
             (sample_order_input (Some ''A'') [sample_line_input 3 3, sample_line_input 1 1])
             sample_world)
   \<and> map (\<lambda>l. (pk (variant (ol_line l)), pk (ol_warehouse l)))
        (lines (fst (projr (create_single_order sample_collaborators
             (sample_order_input (Some ''A'') [sample_line_input 3 3, sample_line_input 1 1])
             sample_world))))
       = [(''1'', ''w1''), (''1'', ''w1'')]
   \<and> order_lines_duplicates (fst (projr (create_single_order sample_collaborators
             (sample_order_input (Some ''A'') [sample_line_input 3 3, sample_line_input 1 1])
             sample_world)))
   \<and> result_summary
        (perform_mutation sample_collaborators (sample_database [sample_stock 5 0]) sample_world
           [sample_order_input (Some ''A'') [sample_line_input 3 3, sample_line_input 1 1]]
           None None) = [(Some (Input_number ''A''), [])]
   \<and> result_count
        (perform_mutation sample_collaborators (sample_database [sample_stock 5 0]) sample_world
           [sample_order_input (Some ''A'') [sample_line_input 3 3, sample_line_input 1 1]]
           None None) = Some 1
   \<and> persisted_lines
        (perform_mutation sample_collaborators (sample_database [sample_stock 5 0]) sample_world
           [sample_order_input (Some ''A'') [sample_line_input 3 3, sample_line_input 1 1]]
           None None) = [(3, 0), (1, 0)]"
  by code_simp


theorem duplicate_lines_persisted_witness:
  "order_lines_duplicates (fst (projr (create_single_order sample_collaborators
             (sample_order_input (Some ''A'') [sample_line_input 3 3, sample_line_input 1 1])
             sample_world)))
   \<and> result_count
        (perform_mutation sample_collaborators (sample_database [sample_stock 5 0]) sample_world
           [sample_order_input (Some ''A'') [sample_line_input 3 3, sample_line_input 1 1]]
           None None) = Some 1"
  using duplicate_lines_persisted by blast

end
